theory Spec2Isabelle
  imports Main "HOL-Library.Sublist" "HOL-Library.Word"
begin

section \<open>Strings, values, errors and the world the checks run in\<close>

text \<open>
  The program is \<^verbatim>\<open>disney-api-test.js\<close>: a runner, \<^verbatim>\<open>runTests\<close>, that awaits five
  checks in turn, each of which fetches a URL and inspects the response.

  A string of the program is a sequence of 16-bit code units, and its \<^verbatim>\<open>length\<close> is the
  number of them. \<open>str\<close> writes an ASCII literal of the source as such a string.
\<close>

type_synonym js_string = "16 word list"

definition code_unit :: "char \<Rightarrow> 16 word" where
  "code_unit c = of_nat (of_char c)"

definition str :: "string \<Rightarrow> js_string" where
  "str s = map code_unit s"

text \<open>
  A value is what \<^verbatim>\<open>response.json()\<close> can resolve to, together with \<^verbatim>\<open>undefined\<close>, which
  a property read yields for an absent property. An object is the list of its own
  properties, looked up with \<open>map_of\<close>.

  \<open>JNum n\<close> is the integer \<open>n\<close>, meant for \<open>n\<close> from \<open>- 2 ^ 53\<close> to \<open>2 ^ 53\<close>: the numbers that
  the program's number type holds exactly and prints digit by digit; every length of an
  array or of a string is one of them. A number that is not such an integer (a fraction,
  a larger magnitude) has no value in the model. \<open>modelled\<close> below holds of the values
  that stay inside these bounds.
\<close>

datatype js_value =
    JUndefined
  | JNull
  | JBool bool
  | JNum int
  | JString js_string
  | JArray "js_value list"
  | JObject "(js_string \<times> js_value) list"

fun modelled :: "js_value \<Rightarrow> bool" where
  "modelled (JNum n) = (- (2 ^ 53) \<le> n \<and> n \<le> 2 ^ 53)"
| "modelled (JString s) = (length s < 2 ^ 53)"
| "modelled (JArray xs) = (length xs < 2 ^ 32 \<and> list_all modelled xs)"
| "modelled (JObject kvs) = list_all (\<lambda>kv. length (fst kv) < 2 ^ 53 \<and> modelled (snd kv)) kvs"
| "modelled v = True"

text \<open>
  What the engine raises a \<^verbatim>\<open>TypeError\<close> for while it evaluates a check: a property
  read from null or undefined, a call of something that is not a function, a
  destructuring of null or undefined, and a conversion to a string of an object that has
  no usable \<^verbatim>\<open>toString\<close>. The text of such an error's message is the engine's and is not
  fixed by the program, so the model keeps the cause instead.
\<close>

datatype fault =
    ReadOfNullish js_string
  | NotAFunction js_string
  | DestructureOfNullish js_string
  | NotPrimitive

text \<open>
  \<open>Error m\<close> is an error object whose message is \<open>m\<close>: one made by \<^verbatim>\<open>new Error(m)\<close> in a
  check, or the reason a \<^verbatim>\<open>fetch\<close> or a \<^verbatim>\<open>response.json()\<close> promise is rejected with.
\<close>

datatype js_error =
    Error js_string
  | TypeError fault

record response =
  status :: nat
  json :: "js_error + js_value"

text \<open>
  \<open>ConsoleLog s\<close> is the call \<^verbatim>\<open>console.log(s)\<close>, and \<open>ConsoleError s e\<close> is the call
  \<^verbatim>\<open>console.error(s, e.message)\<close>.
\<close>

datatype console_call =
    ConsoleLog js_string
  | ConsoleError js_string js_error

text \<open>
  The world: \<open>network w 0 url\<close> is how the next \<^verbatim>\<open>fetch(url)\<close> settles, \<open>network w 1\<close> the
  one after it, and so on; \<open>requests\<close> lists the URLs fetched so far and \<open>console\<close> the
  console calls made so far. Every promise is taken to settle.
\<close>

record world =
  network :: "nat \<Rightarrow> js_string \<Rightarrow> js_error + response"
  requests :: "js_string list"
  console :: "console_call list"

type_synonym 'a prog = "world \<Rightarrow> (js_error + 'a) \<times> world"

definition succeed :: "'a \<Rightarrow> 'a prog" where
  "succeed x w = (Inr x, w)"

definition throw :: "js_error \<Rightarrow> 'a prog" where
  "throw e w = (Inl e, w)"

definition settle :: "js_error + 'a \<Rightarrow> 'a prog" where
  "settle r w = (r, w)"

definition and_then :: "'a prog \<Rightarrow> ('a \<Rightarrow> 'b prog) \<Rightarrow> 'b prog" where
  "and_then m f w = (case m w of (Inl e, w') \<Rightarrow> (Inl e, w') | (Inr x, w') \<Rightarrow> f x w')"

definition try_catch :: "'a prog \<Rightarrow> (js_error \<Rightarrow> 'a prog) \<Rightarrow> 'a prog" where
  "try_catch m h w = (case m w of (Inl e, w') \<Rightarrow> h e w' | (Inr x, w') \<Rightarrow> (Inr x, w'))"

definition fetch :: "js_string \<Rightarrow> response prog" where
  "fetch url w =
     (network w 0 url,
      w\<lparr>network := (\<lambda>n. network w (Suc n)), requests := requests w @ [url]\<rparr>)"

definition console_log :: "js_string \<Rightarrow> unit prog" where
  "console_log s w = (Inr (), w\<lparr>console := console w @ [ConsoleLog s]\<rparr>)"

definition console_error :: "js_string \<Rightarrow> js_error \<Rightarrow> unit prog" where
  "console_error s e w = (Inr (), w\<lparr>console := console w @ [ConsoleError s e]\<rparr>)"

section \<open>Expressions\<close>

fun truthy :: "js_value \<Rightarrow> bool" where
  "truthy JUndefined = False"
| "truthy JNull = False"
| "truthy (JBool b) = b"
| "truthy (JNum n) = (n \<noteq> 0)"
| "truthy (JString s) = (s \<noteq> [])"
| "truthy (JArray xs) = True"
| "truthy (JObject kvs) = True"

fun nullish :: "js_value \<Rightarrow> bool" where
  "nullish JUndefined = True"
| "nullish JNull = True"
| "nullish v = False"

fun isArray :: "js_value \<Rightarrow> bool" where
  "isArray (JArray xs) = True"
| "isArray v = False"

text \<open>
  The property read \<^verbatim>\<open>v.k\<close>, for the names the program reads (\<^verbatim>\<open>data\<close>, \<^verbatim>\<open>name\<close>,
  \<^verbatim>\<open>length\<close>, \<^verbatim>\<open>count\<close>, \<^verbatim>\<open>totalPages\<close>, \<^verbatim>\<open>nextPage\<close>, \<^verbatim>\<open>previousPage\<close>): none of
  them is inherited from a prototype, but arrays and strings have a \<^verbatim>\<open>length\<close>. Reading
  a property of null or undefined raises a \<^verbatim>\<open>TypeError\<close>; \<open>lookup\<close> is the value read
  from anything else.
\<close>

fun lookup :: "js_value \<Rightarrow> js_string \<Rightarrow> js_value" where
  "lookup (JObject kvs) k = (case map_of kvs k of Some v \<Rightarrow> v | None \<Rightarrow> JUndefined)"
| "lookup (JArray xs) k = (if k = str ''length'' then JNum (int (length xs)) else JUndefined)"
| "lookup (JString s) k = (if k = str ''length'' then JNum (int (length s)) else JUndefined)"
| "lookup v k = JUndefined"

definition get :: "js_value \<Rightarrow> js_string \<Rightarrow> js_error + js_value" where
  "get v k = (if nullish v then Inl (TypeError (ReadOfNullish k)) else Inr (lookup v k))"

text \<open>The pattern \<^verbatim>\<open>const { k } = v\<close>.\<close>

definition destructure :: "js_value \<Rightarrow> js_string \<Rightarrow> js_error + js_value" where
  "destructure v k = (if nullish v then Inl (TypeError (DestructureOfNullish k)) else get v k)"

text \<open>The elements of an array; read only where \<^verbatim>\<open>Array.isArray\<close> has held.\<close>

fun items :: "js_value \<Rightarrow> js_value list" where
  "items (JArray xs) = xs"
| "items v = []"

text \<open>
  \<^verbatim>\<open>Array.prototype.every\<close> and \<^verbatim>\<open>some\<close>: the callback is applied from the first element
  on, the loop stops at the first falsy (truthy) result, and an error raised by the
  callback leaves the loop.
\<close>

fun array_every :: "(js_value \<Rightarrow> js_error + js_value) \<Rightarrow> js_value list \<Rightarrow> js_error + bool" where
  "array_every f [] = Inr True"
| "array_every f (x # xs) =
     (case f x of
        Inl e \<Rightarrow> Inl e
      | Inr v \<Rightarrow> if truthy v then array_every f xs else Inr False)"

fun array_some :: "(js_value \<Rightarrow> js_error + js_value) \<Rightarrow> js_value list \<Rightarrow> js_error + bool" where
  "array_some f [] = Inr False"
| "array_some f (x # xs) =
     (case f x of
        Inl e \<Rightarrow> Inl e
      | Inr v \<Rightarrow> if truthy v then Inr True else array_some f xs)"

text \<open>
  The method calls \<^verbatim>\<open>v.every(f)\<close> and \<^verbatim>\<open>v.some(f)\<close>. Only an array has these methods: a
  value parsed from JSON holds no function, so on any other value that is not null or
  undefined the call is a call of something that is not a function.
\<close>

fun call_every :: "js_value \<Rightarrow> (js_value \<Rightarrow> js_error + js_value) \<Rightarrow> js_error + bool" where
  "call_every JUndefined f = Inl (TypeError (ReadOfNullish (str ''every'')))"
| "call_every JNull f = Inl (TypeError (ReadOfNullish (str ''every'')))"
| "call_every (JArray xs) f = array_every f xs"
| "call_every v f = Inl (TypeError (NotAFunction (str ''every'')))"

fun call_some :: "js_value \<Rightarrow> (js_value \<Rightarrow> js_error + js_value) \<Rightarrow> js_error + bool" where
  "call_some JUndefined f = Inl (TypeError (ReadOfNullish (str ''some'')))"
| "call_some JNull f = Inl (TypeError (ReadOfNullish (str ''some'')))"
| "call_some (JArray xs) f = array_some f xs"
| "call_some v f = Inl (TypeError (NotAFunction (str ''some'')))"

text \<open>Decimal digits of a natural number and of an integer.\<close>

fun show_nat :: "nat \<Rightarrow> string" where
  "show_nat n =
     (if n < 10 then [char_of (48 + n)]
      else show_nat (n div 10) @ [char_of (48 + n mod 10)])"

declare show_nat.simps [simp del]

definition show_int :: "int \<Rightarrow> string" where
  "show_int i = (if i < 0 then ''-'' @ show_nat (nat (- i)) else show_nat (nat i))"

fun join_comma :: "js_string list \<Rightarrow> js_string" where
  "join_comma [] = []"
| "join_comma [s] = s"
| "join_comma (s # t # ss) = s @ str '','' @ join_comma (t # ss)"

text \<open>The results of a list of conversions done from left to right: the first error wins.\<close>

fun collect :: "('e + 'a) list \<Rightarrow> 'e + 'a list" where
  "collect [] = Inr []"
| "collect (Inl e # rs) = Inl e"
| "collect (Inr x # rs) = (case collect rs of Inl e \<Rightarrow> Inl e | Inr xs \<Rightarrow> Inr (x # xs))"

text \<open>
  The string a template literal \<^verbatim>\<open>${v}\<close> inserts. A number prints its digits (see
  \<open>JNum\<close> above for the range). An array prints its elements joined by commas, with
  nothing for null and undefined. An object without a property of its own named
  \<^verbatim>\<open>toString\<close> inherits the method that prints the fixed text; an object with one has,
  coming from JSON, something there that is not a function, and then the conversion finds
  no method that yields a primitive and raises a \<^verbatim>\<open>TypeError\<close>.
\<close>

fun to_string :: "js_value \<Rightarrow> js_error + js_string" where
  "to_string JUndefined = Inr (str ''undefined'')"
| "to_string JNull = Inr (str ''null'')"
| "to_string (JBool b) = Inr (if b then str ''true'' else str ''false'')"
| "to_string (JNum n) = Inr (str (show_int n))"
| "to_string (JString s) = Inr s"
| "to_string (JArray xs) =
     map_sum id join_comma
       (collect (map (\<lambda>v. if nullish v then Inr [] else to_string v) xs))"
| "to_string (JObject kvs) =
     (if str ''toString'' \<in> fst ` set kvs then Inl (TypeError NotPrimitive)
      else Inr (str ''[object Object]''))"

section \<open>The five checks and the runner\<close>

definition API_URL :: js_string where
  "API_URL = str ''https://api.disneyapi.dev/characters''"

text \<open>The cross mark U+274C that ends the status message: one code unit.\<close>

definition cross_mark :: js_string where
  "cross_mark = [0x274C]"

definition testStatusCode :: "unit prog" where
  "testStatusCode =
     try_catch
       (and_then (fetch API_URL) (\<lambda>response.
          if status response = 200 then console_log (str ''Test 1: Status code is 200'')
          else throw (Error (str (''Expected status code 200, but got ''
                                   @ show_nat (status response) @ '' '') @ cross_mark))))
       (\<lambda>error. and_then (console_error (str ''Test 1: FAILED'') error) (\<lambda>_. throw error))"

definition testDataStructure :: "unit prog" where
  "testDataStructure =
     try_catch
       (and_then (fetch API_URL) (\<lambda>response.
        and_then (settle (json response)) (\<lambda>data.
        and_then (settle (get data (str ''data''))) (\<lambda>data_data.
          if truthy data_data \<and> isArray data_data then
            and_then (console_log (str ''Test 2: Response 'data' property is an array'')) (\<lambda>_.
              if length (items data_data) > 0
              then console_log (str ''Test 2: Data array is not empty'')
              else throw (Error (str ''Data array is empty.'')))
          else throw (Error (str ''Response body does not have a valid 'data' array.''))))))
       (\<lambda>error. and_then (console_error (str ''Test 2: FAILED'') error) (\<lambda>_. throw error))"

definition testCharactersHaveNames :: "unit prog" where
  "testCharactersHaveNames =
     try_catch
       (and_then (fetch API_URL) (\<lambda>response.
        and_then (settle (json response)) (\<lambda>body.
        and_then (settle (destructure body (str ''data''))) (\<lambda>data.
        and_then (settle (call_every data (\<lambda>character. get character (str ''name''))))
          (\<lambda>allHaveNames.
          if allHaveNames
          then console_log (str ''Test 3: All characters have a 'name' property'')
          else throw (Error (str ''Some characters are missing a 'name' property.'')))))))
       (\<lambda>error. and_then (console_error (str ''Test 3: FAILED'') error) (\<lambda>_. throw error))"

definition mickey_not_found :: js_string where
  "mickey_not_found = str (CHR 0x27 # ''Mickey Mouse' character not found.'')"

definition testSpecificCharacterExists :: "unit prog" where
  "testSpecificCharacterExists =
     (let specificCharacterUrl = API_URL @ str ''?name=Mickey Mouse'' in
      try_catch
        (and_then (fetch specificCharacterUrl) (\<lambda>response.
         and_then (settle (json response)) (\<lambda>body.
         and_then (settle (destructure body (str ''data''))) (\<lambda>data.
         and_then (settle (call_some data (\<lambda>character.
                     map_sum id (\<lambda>name. JBool (name = JString (str ''Mickey Mouse'')))
                       (get character (str ''name''))))) (\<lambda>found.
           if found then console_log (str ''Test 4: 'Mickey Mouse' character found.'')
           else throw (Error mickey_not_found))))))
        (\<lambda>error. and_then (console_error (str ''Test 4: FAILED.'') error) (\<lambda>_. throw error)))"

text \<open>
  The pattern of \<^verbatim>\<open>testPagination\<close> reads five properties of the body; only \<^verbatim>\<open>data\<close> is
  used afterwards. The message of the error is a template literal, so the conversion of
  \<^verbatim>\<open>data.length\<close> to a string comes before the error is made, and may itself throw.
\<close>

definition testPagination :: "unit prog" where
  "testPagination =
     try_catch
       (and_then (fetch API_URL) (\<lambda>response.
        and_then (settle (json response)) (\<lambda>body.
        and_then (settle (destructure body (str ''data''))) (\<lambda>data.
        and_then (settle (destructure body (str ''count''))) (\<lambda>count.
        and_then (settle (destructure body (str ''totalPages''))) (\<lambda>totalPages.
        and_then (settle (destructure body (str ''nextPage''))) (\<lambda>nextPage.
        and_then (settle (destructure body (str ''previousPage''))) (\<lambda>previousPage.
          let defaultPageSize = 50 in
          and_then (settle (get data (str ''length''))) (\<lambda>data_length.
            if data_length = JNum defaultPageSize then
              console_log (str (''Test 5: Pagination returns the correct number of items per page (''
                                @ show_int defaultPageSize @ '').''))
            else
              and_then (settle (to_string data_length)) (\<lambda>text.
                throw (Error (str (''Expected '' @ show_int defaultPageSize
                                   @ '' items per page, but got '') @ text))))))))))))
       (\<lambda>error. and_then (console_error (str ''Test 5: FAILED.'') error) (\<lambda>_. throw error))"

text \<open>The body of the \<^verbatim>\<open>try\<close> block of \<^verbatim>\<open>runTests\<close>.\<close>

definition run_body :: "unit prog" where
  "run_body =
     and_then testStatusCode (\<lambda>_.
     and_then testDataStructure (\<lambda>_.
     and_then testCharactersHaveNames (\<lambda>_.
     and_then testSpecificCharacterExists (\<lambda>_.
     and_then testPagination (\<lambda>_.
       console_log (str (CHR 0x0A # ''All tests completed successfully'')))))))"

definition runTests :: "unit prog" where
  "runTests =
     and_then (console_log (str ''--- Running Disney API Tests ---'')) (\<lambda>_.
       try_catch run_body
         (\<lambda>error. console_error (str (CHR 0x0A # ''Tests failed!'')) error))"

section \<open>What a run shows\<close>

text \<open>
  The runner as the specification words it: the checks are invoked in order, and the
  first one to fail ends the sequence. The result carries the number of checks invoked.
\<close>

fun run_until_failure :: "unit prog list \<Rightarrow> world \<Rightarrow> nat \<times> (js_error + unit) \<times> world" where
  "run_until_failure [] w = (0, Inr (), w)"
| "run_until_failure (c # cs) w =
     (case c w of
        (Inl e, w') \<Rightarrow> (1, Inl e, w')
      | (Inr u, w') \<Rightarrow> (case run_until_failure cs w' of (n, r, w'') \<Rightarrow> (Suc n, r, w'')))"

definition checks :: "unit prog list" where
  "checks = [testStatusCode, testDataStructure, testCharactersHaveNames,
             testSpecificCharacterExists, testPagination]"

text \<open>The URL each check fetches, in the order of \<open>checks\<close>.\<close>

definition check_urls :: "js_string list" where
  "check_urls = [API_URL, API_URL, API_URL, API_URL @ str ''?name=Mickey Mouse'', API_URL]"

text \<open>The world once \<^verbatim>\<open>runTests\<close> has logged its first line, in which the first check starts.\<close>

definition banner :: "world \<Rightarrow> world" where
  "banner w = snd (console_log (str ''--- Running Disney API Tests ---'') w)"

text \<open>The console calls and the requests a run adds to those of the world it starts in.\<close>

definition run_output :: "world \<Rightarrow> console_call list" where
  "run_output w = drop (length (console w)) (console (snd (runTests w)))"

definition run_requests :: "world \<Rightarrow> js_string list" where
  "run_requests w = drop (length (requests w)) (requests (snd (runTests w)))"

text \<open>The last console call of a run.\<close>

definition summary :: "js_error + unit \<Rightarrow> console_call" where
  "summary r =
     (case r of
        Inl e \<Rightarrow> ConsoleError (str (CHR 0x0A # ''Tests failed!'')) e
      | Inr u \<Rightarrow> ConsoleLog (str (CHR 0x0A # ''All tests completed successfully'')))"

text \<open>
  What a console call prints. \<^verbatim>\<open>console.error\<close> prints its two arguments with a space
  between them, so the message of the error is part of the line. The message of an error
  raised by the engine is the engine's own wording, \<open>engine\<close>, of the fault.
\<close>

fun message :: "(fault \<Rightarrow> js_string) \<Rightarrow> js_error \<Rightarrow> js_string" where
  "message engine (Error m) = m"
| "message engine (TypeError f) = engine f"

fun printed :: "(fault \<Rightarrow> js_string) \<Rightarrow> console_call \<Rightarrow> js_string" where
  "printed engine (ConsoleLog s) = s"
| "printed engine (ConsoleError s e) = s @ str '' '' @ message engine e"

text \<open>A printed line that contains the given text.\<close>

definition prints :: "(fault \<Rightarrow> js_string) \<Rightarrow> string \<Rightarrow> console_call \<Rightarrow> bool" where
  "prints engine text c = sublist (str text) (printed engine c)"

text \<open>An element of \<^verbatim>\<open>data\<close> with a truthy \<^verbatim>\<open>name\<close>, and one named Mickey Mouse.\<close>

definition has_truthy_name :: "js_value \<Rightarrow> bool" where
  "has_truthy_name x = (\<not> nullish x \<and> truthy (lookup x (str ''name'')))"

definition is_mickey :: "js_value \<Rightarrow> bool" where
  "is_mickey x = (\<not> nullish x \<and> lookup x (str ''name'') = JString (str ''Mickey Mouse''))"

section \<open>Concrete worlds\<close>

text \<open>
  A network that settles the fetches as scripted, one entry for each fetch in turn, and
  every later one as the default. A world with nothing fetched or logged yet runs on it.
\<close>

fun script :: "(js_error + response) list \<Rightarrow> (js_error + response)
                 \<Rightarrow> nat \<Rightarrow> js_string \<Rightarrow> js_error + response" where
  "script [] d n url = d"
| "script (r # rs) d 0 url = r"
| "script (r # rs) d (Suc n) url = script rs d n url"

definition fresh :: "(nat \<Rightarrow> js_string \<Rightarrow> js_error + response) \<Rightarrow> world" where
  "fresh net = \<lparr>network = net, requests = [], console = []\<rparr>"

definition ok :: "js_value \<Rightarrow> js_error + response" where
  "ok body = Inr \<lparr>status = 200, json = Inr body\<rparr>"

text \<open>A world in which every fetch resolves to the given status and parsed body.\<close>

definition respond_with :: "nat \<Rightarrow> js_value \<Rightarrow> world" where
  "respond_with s body =
     \<lparr>network = (\<lambda>n url. Inr \<lparr>status = s, json = Inr body\<rparr>), requests = [], console = []\<rparr>"

definition named :: "string \<Rightarrow> js_value" where
  "named s = JObject [(str ''name'', JString (str s))]"

definition page_of :: "js_value list \<Rightarrow> js_value" where
  "page_of xs = JObject [(str ''data'', JArray xs)]"

text \<open>A world in which every check passes: fifty characters, all named Mickey Mouse.\<close>

definition good_page :: js_value where
  "good_page = page_of (replicate 50 (named ''Mickey Mouse''))"

definition all_pass_world :: world where
  "all_pass_world = respond_with 200 good_page"

text \<open>
  A world in which the first four checks pass and the fifth response has, as the
  \<^verbatim>\<open>length\<close> of its \<^verbatim>\<open>data\<close>, a string chosen by the server.
\<close>

definition echo_body :: js_value where
  "echo_body =
     JObject [(str ''data'',
       JObject [(str ''length'', JString (str ''All tests completed successfully.''))])]"

definition echo_world :: world where
  "echo_world =
     fresh (script [ok good_page, ok good_page, ok good_page, ok good_page] (ok echo_body))"

text \<open>A world in which the third check meets a null element.\<close>

definition null_element_world :: world where
  "null_element_world = respond_with 200 (page_of [JNull])"

section \<open>Each check as one fetch and a verdict\<close>

text \<open>
  Every check has the same shape: one fetch, some lines logged, and then either a normal
  return or a \<^verbatim>\<open>console.error\<close> of the label with the error, which is thrown again. The
  verdict is the pure part of a check: from how the fetch settled to the lines logged
  and the outcome. The lemmas \<open>test..._shape\<close> below prove that each check of the model
  above is \<open>check_shape\<close> of its verdict.
\<close>

type_synonym verdict = "string list \<times> (js_error + unit)"

definition check_shape :: "js_string \<Rightarrow> string \<Rightarrow> (js_error + response \<Rightarrow> verdict) \<Rightarrow> unit prog" where
  "check_shape url label verdict w =
     (let (logs, r) = verdict (network w 0 url);
          w1 = w\<lparr>network := (\<lambda>n. network w (Suc n)), requests := requests w @ [url],
                 console := console w @ map (\<lambda>s. ConsoleLog (str s)) logs\<rparr>
      in case r of
           Inl e \<Rightarrow> (Inl e, w1\<lparr>console := console w1 @ [ConsoleError (str label) e]\<rparr>)
         | Inr u \<Rightarrow> (Inr (), w1))"

definition with_body :: "(js_value \<Rightarrow> verdict) \<Rightarrow> js_error + response \<Rightarrow> verdict" where
  "with_body f x =
     (case x of
        Inl e \<Rightarrow> ([], Inl e)
      | Inr response \<Rightarrow> (case json response of Inl e \<Rightarrow> ([], Inl e) | Inr body \<Rightarrow> f body))"

definition verdict_status :: "js_error + response \<Rightarrow> verdict" where
  "verdict_status x =
     (case x of
        Inl e \<Rightarrow> ([], Inl e)
      | Inr response \<Rightarrow>
          if status response = 200 then ([''Test 1: Status code is 200''], Inr ())
          else ([], Inl (Error (str (''Expected status code 200, but got ''
                                      @ show_nat (status response) @ '' '') @ cross_mark))))"

definition verdict_shape :: "js_value \<Rightarrow> verdict" where
  "verdict_shape body =
     (if nullish body then ([], Inl (TypeError (ReadOfNullish (str ''data''))))
      else case lookup body (str ''data'') of
             JArray xs \<Rightarrow>
               if xs = [] then ([''Test 2: Response 'data' property is an array''],
                                Inl (Error (str ''Data array is empty.'')))
               else ([''Test 2: Response 'data' property is an array'',
                      ''Test 2: Data array is not empty''], Inr ())
           | _ \<Rightarrow> ([], Inl (Error (str ''Response body does not have a valid 'data' array.''))))"

definition verdict_names :: "js_value \<Rightarrow> verdict" where
  "verdict_names body =
     (case destructure body (str ''data'') of
        Inl e \<Rightarrow> ([], Inl e)
      | Inr data \<Rightarrow>
          (case call_every data (\<lambda>character. get character (str ''name'')) of
             Inl e \<Rightarrow> ([], Inl e)
           | Inr allHaveNames \<Rightarrow>
               if allHaveNames then ([''Test 3: All characters have a 'name' property''], Inr ())
               else ([], Inl (Error (str ''Some characters are missing a 'name' property.'')))))"

definition verdict_mickey :: "js_value \<Rightarrow> verdict" where
  "verdict_mickey body =
     (case destructure body (str ''data'') of
        Inl e \<Rightarrow> ([], Inl e)
      | Inr data \<Rightarrow>
          (case call_some data (\<lambda>character.
                  map_sum id (\<lambda>name. JBool (name = JString (str ''Mickey Mouse'')))
                    (get character (str ''name''))) of
             Inl e \<Rightarrow> ([], Inl e)
           | Inr found \<Rightarrow>
               if found then ([''Test 4: 'Mickey Mouse' character found.''], Inr ())
               else ([], Inl (Error mickey_not_found))))"

text \<open>The error the Pagination check throws for a \<^verbatim>\<open>data.length\<close> other than 50.\<close>

definition count_error :: "js_value \<Rightarrow> js_error" where
  "count_error n =
     (case to_string n of
        Inl e \<Rightarrow> e
      | Inr text \<Rightarrow> Error (str ''Expected 50 items per page, but got '' @ text))"

definition verdict_page :: "js_value \<Rightarrow> verdict" where
  "verdict_page body =
     (case destructure body (str ''data'') of
        Inl e \<Rightarrow> ([], Inl e)
      | Inr data \<Rightarrow>
          (case get data (str ''length'') of
             Inl e \<Rightarrow> ([], Inl e)
           | Inr n \<Rightarrow>
               if n = JNum 50
               then ([''Test 5: Pagination returns the correct number of items per page (50).''],
                     Inr ())
               else ([], Inl (count_error n))))"

text \<open>
  The five checks as data: the URL fetched, the label of the failure line and the
  verdict. \<open>trace\<close> is the pure course of a run over such a list: how many checks are
  invoked, the outcome, and the console calls made, as a function of the network alone.
\<close>

type_synonym check_spec = "js_string \<times> string \<times> (js_error + response \<Rightarrow> verdict)"

definition check_specs :: "check_spec list" where
  "check_specs =
     [(API_URL, ''Test 1: FAILED'', verdict_status),
      (API_URL, ''Test 2: FAILED'', with_body verdict_shape),
      (API_URL, ''Test 3: FAILED'', with_body verdict_names),
      (API_URL @ str ''?name=Mickey Mouse'', ''Test 4: FAILED.'', with_body verdict_mickey),
      (API_URL, ''Test 5: FAILED.'', with_body verdict_page)]"

definition shaped :: "check_spec \<Rightarrow> unit prog" where
  "shaped = (\<lambda>(url, label, v). check_shape url label v)"

fun trace :: "check_spec list \<Rightarrow> (nat \<Rightarrow> js_string \<Rightarrow> js_error + response)
                \<Rightarrow> nat \<times> (js_error + unit) \<times> console_call list" where
  "trace [] net = (0, Inr (), [])"
| "trace ((url, label, v) # ss) net =
     (case v (net 0 url) of
        (logs, Inl e) \<Rightarrow>
          (1, Inl e, map (\<lambda>s. ConsoleLog (str s)) logs @ [ConsoleError (str label) e])
      | (logs, Inr u) \<Rightarrow>
          (case trace ss (\<lambda>k. net (Suc k)) of
             (n, r, out) \<Rightarrow> (Suc n, r, map (\<lambda>s. ConsoleLog (str s)) logs @ out)))"

text \<open>The lines the checks log when they pass, and what they and the failure labels show.\<close>

definition pass_lines :: "string list" where
  "pass_lines =
     [''Test 1: Status code is 200'',
      ''Test 2: Response 'data' property is an array'',
      ''Test 2: Data array is not empty'',
      ''Test 3: All characters have a 'name' property'',
      ''Test 4: 'Mickey Mouse' character found.'',
      ''Test 5: Pagination returns the correct number of items per page (50).'']"

definition quiet :: "string \<Rightarrow> bool" where
  "quiet s \<longleftrightarrow> \<not> sublist ''FAILED'' s \<and> \<not> sublist ''Tests failed!'' s
               \<and> \<not> sublist ''All tests completed successfully'' s"

definition failure_label :: "string \<Rightarrow> bool" where
  "failure_label s \<longleftrightarrow> sublist ''FAILED'' s"

definition well_labelled :: "check_spec list \<Rightarrow> bool" where
  "well_labelled specs \<longleftrightarrow>
     (\<forall>(url, label, v)\<in>set specs. failure_label label \<and> (\<forall>x. \<forall>s\<in>set (fst (v x)). quiet s))"

section \<open>Lemmas about the model\<close>

subsection \<open>Strings\<close>

lemma unat_code_unit: "unat (code_unit c) = of_char c"
proof -
  have "(of_char c :: nat) < 256"
    by (rule nat_of_char_less_256)
  then have "(of_char c :: nat) < 2 ^ 16"
    by (rule order_less_trans) simp
  then have "(of_char c :: nat) mod 2 ^ LENGTH(16) = of_char c"
    by simp
  then show ?thesis
    by (simp only: code_unit_def unat_of_nat)
qed

lemma inj_code_unit: "inj code_unit"
proof (rule injI)
  fix c d
  assume "code_unit c = code_unit d"
  then have "unat (code_unit c) = unat (code_unit d)"
    by simp
  then show "c = d"
    by (simp add: unat_code_unit)
qed

lemma str_eq_iff [simp]: "str a = str b \<longleftrightarrow> a = b"
  by (simp add: str_def inj_map_eq_map [OF inj_code_unit])

lemma str_Nil [simp]: "str [] = []" "str a = [] \<longleftrightarrow> a = []" "[] = str a \<longleftrightarrow> a = []"
  by (auto simp add: str_def)

lemma str_append: "str (a @ b) = str a @ str b"
  by (simp add: str_def)

lemma length_str [simp]: "length (str a) = length a"
  by (simp add: str_def)

lemma sublist_str [simp]: "sublist (str a) (str b) \<longleftrightarrow> sublist a b"
proof
  assume "sublist (str a) (str b)"
  then obtain ps ss where "map code_unit b = ps @ map code_unit a @ ss"
    by (auto simp: sublist_def str_def)
  then obtain p r where b: "b = p @ r" and r: "map code_unit r = map code_unit a @ ss"
    by (metis map_eq_append_conv)
  from r obtain a' s where r': "r = a' @ s" and a': "map code_unit a' = map code_unit a"
    by (metis map_eq_append_conv)
  from a' have "a' = a"
    by (simp add: inj_map_eq_map [OF inj_code_unit])
  with b r' show "sublist a b"
    by (auto simp: sublist_def)
next
  assume "sublist a b"
  then obtain ps ss where "b = ps @ a @ ss"
    by (auto simp: sublist_def)
  then have "str b = str ps @ str a @ str ss"
    by (simp add: str_append)
  then show "sublist (str a) (str b)"
    unfolding sublist_def by blast
qed

lemma sublist_str_left: "sublist a b \<Longrightarrow> sublist (str a) (str b @ t)"
proof -
  assume "sublist a b"
  then obtain ps ss where "b = ps @ a @ ss"
    by (auto simp: sublist_def)
  then have "str b @ t = str ps @ str a @ (str ss @ t)"
    by (simp add: str_append)
  then show ?thesis
    unfolding sublist_def by blast
qed

subsection \<open>The checks\<close>

lemmas prog_defs = try_catch_def and_then_def fetch_def console_log_def console_error_def
  throw_def settle_def succeed_def

lemma show_int_50: "show_int 50 = ''50''"
  by code_simp

lemma destructure_simps:
  "nullish v \<Longrightarrow> destructure v k = Inl (TypeError (DestructureOfNullish k))"
  "\<not> nullish v \<Longrightarrow> destructure v k = Inr (lookup v k)"
  by (simp_all add: destructure_def get_def)

lemma testStatusCode_shape: "testStatusCode = check_shape API_URL ''Test 1: FAILED'' verdict_status"
  by (rule ext)
     (simp add: testStatusCode_def check_shape_def verdict_status_def prog_defs split: sum.splits)

lemma testDataStructure_shape:
  "testDataStructure = check_shape API_URL ''Test 2: FAILED'' (with_body verdict_shape)"
  by (rule ext)
     (auto simp add: testDataStructure_def check_shape_def with_body_def verdict_shape_def
        get_def prog_defs split: sum.splits js_value.splits)

lemma testCharactersHaveNames_shape:
  "testCharactersHaveNames = check_shape API_URL ''Test 3: FAILED'' (with_body verdict_names)"
  by (rule ext)
     (simp add: testCharactersHaveNames_def check_shape_def with_body_def verdict_names_def
        prog_defs split: sum.splits)

lemma testSpecificCharacterExists_shape:
  "testSpecificCharacterExists =
     check_shape (API_URL @ str ''?name=Mickey Mouse'') ''Test 4: FAILED.''
       (with_body verdict_mickey)"
  by (rule ext)
     (simp add: testSpecificCharacterExists_def check_shape_def with_body_def verdict_mickey_def
        prog_defs split: sum.splits)

lemma testPagination_shape:
  "testPagination = check_shape API_URL ''Test 5: FAILED.'' (with_body verdict_page)"
proof (rule ext)
  fix w
  show "testPagination w = check_shape API_URL ''Test 5: FAILED.'' (with_body verdict_page) w"
  proof (cases "network w 0 API_URL")
    case (Inl e)
    then show ?thesis
      by (simp add: testPagination_def check_shape_def with_body_def prog_defs)
  next
    case (Inr response)
    show ?thesis
    proof (cases "json response")
      case (Inl e)
      with Inr show ?thesis
        by (simp add: testPagination_def check_shape_def with_body_def prog_defs)
    next
      case body: (Inr body)
      show ?thesis
      proof (cases "nullish body")
        case True
        with Inr body show ?thesis
          by (simp add: testPagination_def check_shape_def with_body_def verdict_page_def
                prog_defs destructure_simps)
      next
        case False
        with Inr body show ?thesis
          by (simp add: testPagination_def check_shape_def with_body_def verdict_page_def
                prog_defs destructure_simps show_int_50 get_def count_error_def
                split: sum.splits)
      qed
    qed
  qed
qed

lemma check_shape_result: "fst (check_shape url label v w) = snd (v (network w 0 url))"
  by (simp add: check_shape_def Let_def split: prod.splits sum.splits)

lemma check_shape_requests: "requests (snd (check_shape url label v w)) = requests w @ [url]"
  by (simp add: check_shape_def Let_def split: prod.splits sum.splits)

lemma check_shape_console:
  "console (snd (check_shape url label v w)) =
     console w @ map (\<lambda>s. ConsoleLog (str s)) (fst (v (network w 0 url)))
       @ (case snd (v (network w 0 url)) of
            Inl e \<Rightarrow> [ConsoleError (str label) e] | Inr u \<Rightarrow> [])"
  by (simp add: check_shape_def Let_def split: prod.splits sum.splits)

lemma respond_with_simps:
  "network (respond_with s body) n url = Inr \<lparr>status = s, json = Inr body\<rparr>"
  "requests (respond_with s body) = []"
  "console (respond_with s body) = []"
  by (simp_all add: respond_with_def)

lemma fresh_simps:
  "network (fresh net) = net"
  "requests (fresh net) = []"
  "console (fresh net) = []"
  by (simp_all add: fresh_def)

lemma banner_simps:
  "network (banner w) = network w"
  "requests (banner w) = requests w"
  "console (banner w) = console w @ [ConsoleLog (str ''--- Running Disney API Tests ---'')]"
  by (simp_all add: banner_def console_log_def)

lemma find_Some_holds: "find P xs = Some x \<Longrightarrow> x \<in> set xs \<and> P x"
  by (induction xs) (auto split: if_splits)

lemma lookup_not_nullish: "lookup body k = JArray xs \<Longrightarrow> \<not> nullish body"
  by (cases body) simp_all

lemma nullish_lookup: "nullish body \<Longrightarrow> lookup body k = JUndefined"
  by (cases body) simp_all

lemma body_result:
  assumes "network w 0 url = Inr response" and "json response = Inr body"
  shows "fst (check_shape url label (with_body v) w) = snd (v body)"
    and "console (snd (check_shape url label (with_body v) w)) =
           console w @ map (\<lambda>s. ConsoleLog (str s)) (fst (v body))
             @ (case snd (v body) of Inl e \<Rightarrow> [ConsoleError (str label) e] | Inr u \<Rightarrow> [])"
  using assms by (simp_all add: check_shape_result check_shape_console with_body_def)

subsection \<open>The loops over the data array\<close>

lemma array_every_names:
  "array_every (\<lambda>character. get character (str ''name'')) xs =
     (case find (\<lambda>x. \<not> has_truthy_name x) xs of
        None \<Rightarrow> Inr True
      | Some x \<Rightarrow>
          if nullish x then Inl (TypeError (ReadOfNullish (str ''name''))) else Inr False)"
  by (induction xs) (auto simp: get_def has_truthy_name_def)

lemma array_some_mickey:
  "array_some (\<lambda>character. map_sum id (\<lambda>name. JBool (name = JString (str ''Mickey Mouse'')))
                             (get character (str ''name''))) xs =
     (case find (\<lambda>x. nullish x \<or> is_mickey x) xs of
        None \<Rightarrow> Inr False
      | Some x \<Rightarrow>
          if nullish x then Inl (TypeError (ReadOfNullish (str ''name''))) else Inr True)"
  by (induction xs) (auto simp: get_def is_mickey_def)

lemma array_every_all_named:
  "\<forall>x\<in>set xs. has_truthy_name x \<Longrightarrow>
     array_every (\<lambda>character. get character (str ''name'')) xs = Inr True"
  by (simp add: array_every_names find_None_iff [THEN iffD2])

lemma array_some_head_mickey:
  "is_mickey x \<Longrightarrow>
     array_some (\<lambda>character. map_sum id (\<lambda>name. JBool (name = JString (str ''Mickey Mouse'')))
                               (get character (str ''name''))) (x # xs) = Inr True"
  by (simp add: array_some_mickey is_mickey_def)

lemma mickey_named: "is_mickey (named ''Mickey Mouse'')" "has_truthy_name (named ''Mickey Mouse'')"
  by (simp_all add: is_mickey_def has_truthy_name_def named_def)

lemma call_every_not_array:
  "\<not> isArray d \<Longrightarrow> \<exists>f. call_every d g = Inl (TypeError f)"
  by (cases d) simp_all

lemma call_some_not_array:
  "\<not> isArray d \<Longrightarrow> \<exists>f. call_some d g = Inl (TypeError f)"
  by (cases d) simp_all

lemma verdict_names_not_array:
  "\<not> isArray (lookup body (str ''data'')) \<Longrightarrow>
     \<exists>f. verdict_names body = ([], Inl (TypeError f))"
proof (cases "nullish body")
  case True
  then show ?thesis by (simp add: verdict_names_def destructure_simps)
next
  case False
  assume "\<not> isArray (lookup body (str ''data''))"
  then obtain f where
    "call_every (lookup body (str ''data'')) (\<lambda>character. get character (str ''name''))
       = Inl (TypeError f)"
    using call_every_not_array by blast
  with False show ?thesis by (simp add: verdict_names_def destructure_simps)
qed

lemma verdict_mickey_not_array:
  "\<not> isArray (lookup body (str ''data'')) \<Longrightarrow>
     \<exists>f. verdict_mickey body = ([], Inl (TypeError f))"
proof (cases "nullish body")
  case True
  then show ?thesis by (simp add: verdict_mickey_def destructure_simps)
next
  case False
  assume "\<not> isArray (lookup body (str ''data''))"
  then obtain f where "call_some (lookup body (str ''data''))
      (\<lambda>character. map_sum id (\<lambda>name. JBool (name = JString (str ''Mickey Mouse'')))
                    (get character (str ''name''))) = Inl (TypeError f)"
    using call_some_not_array by blast
  with False show ?thesis by (simp add: verdict_mickey_def destructure_simps)
qed

lemma verdict_page_cases:
  "verdict_page body =
     (if nullish body then ([], Inl (TypeError (DestructureOfNullish (str ''data''))))
      else if nullish (lookup body (str ''data''))
      then ([], Inl (TypeError (ReadOfNullish (str ''length''))))
      else if lookup (lookup body (str ''data'')) (str ''length'') = JNum 50
      then ([''Test 5: Pagination returns the correct number of items per page (50).''], Inr ())
      else ([], Inl (count_error (lookup (lookup body (str ''data'')) (str ''length'')))))"
  by (simp add: verdict_page_def destructure_simps get_def)

subsection \<open>Conversion to a string\<close>

lemma collect_Inl: "collect rs = Inl e \<Longrightarrow> Inl e \<in> set rs"
proof (induction rs)
  case Nil
  then show ?case by simp
next
  case (Cons r rs)
  then show ?case
    by (cases r) (auto split: sum.splits)
qed

lemma to_string_Inl: "to_string v = Inl e \<Longrightarrow> e = TypeError NotPrimitive"
proof (induction v arbitrary: e rule: to_string.induct)
  case (6 xs)
  from "6.prems" have "collect (map (\<lambda>v. if nullish v then Inr [] else to_string v) xs) = Inl e"
    by (cases "collect (map (\<lambda>v. if nullish v then Inr [] else to_string v) xs)") auto
  then have "Inl e \<in> set (map (\<lambda>v. if nullish v then Inr [] else to_string v) xs)"
    by (rule collect_Inl)
  then obtain x where "x \<in> set xs" "\<not> nullish x" "to_string x = Inl e"
    by (auto split: if_splits)
  then show ?case
    using "6.IH" by blast
qed (auto split: if_splits)

lemma count_error_cases:
  "to_string n = Inr text \<Longrightarrow>
     count_error n = Error (str ''Expected 50 items per page, but got '' @ text)"
  "isl (to_string n) \<Longrightarrow> count_error n = TypeError NotPrimitive"
  by (auto simp add: count_error_def isl_def dest: to_string_Inl)

subsection \<open>The runner follows the trace\<close>

lemma checks_shaped: "checks = map shaped check_specs"
  by (simp add: checks_def check_specs_def shaped_def testStatusCode_shape
        testDataStructure_shape testCharactersHaveNames_shape testSpecificCharacterExists_shape
        testPagination_shape)

lemma check_urls_specs: "check_urls = map fst check_specs"
  by (simp add: check_urls_def check_specs_def)

lemma run_until_failure_trace:
  "run_until_failure (map shaped specs) w =
     (case trace specs (network w) of
        (n, r, out) \<Rightarrow>
          (n, r, w\<lparr>network := (\<lambda>k. network w (k + n)),
                    requests := requests w @ take n (map fst specs),
                    console := console w @ out\<rparr>))"
proof (induction specs arbitrary: w)
  case Nil
  show ?case by simp
next
  case (Cons s ss)
  obtain url label v where s: "s = (url, label, v)"
    by (cases s) auto
  obtain logs r where v: "v (network w 0 url) = (logs, r)"
    by (cases "v (network w 0 url)") auto
  show ?case
  proof (cases r)
    case (Inl e)
    with s v show ?thesis
      by (simp add: shaped_def check_shape_def)
  next
    case (Inr u)
    with s v Cons.IH show ?thesis
      by (simp add: shaped_def check_shape_def split: prod.splits)
  qed
qed

lemma run_body_until_failure:
  "run_body w =
     (case run_until_failure checks w of
        (n, Inl e, w') \<Rightarrow> (Inl e, w')
      | (n, Inr u, w') \<Rightarrow>
          console_log (str (CHR 0x0A # ''All tests completed successfully'')) w')"
  by (simp add: run_body_def checks_def and_then_def split: prod.splits sum.splits)

lemma runTests_trace:
  "runTests w =
     (case trace check_specs (network w) of
        (n, r, out) \<Rightarrow>
          (Inr (), w\<lparr>network := (\<lambda>k. network w (k + n)),
                      requests := requests w @ take n check_urls,
                      console := console w @ ConsoleLog (str ''--- Running Disney API Tests ---'')
                                   # out @ [summary r]\<rparr>))"
  by (simp add: runTests_def run_body_until_failure checks_shaped run_until_failure_trace
        check_urls_specs and_then_def try_catch_def console_log_def console_error_def summary_def
        split: prod.splits sum.splits)

lemma trace_count:
  "trace specs net = (n, r, out) \<Longrightarrow>
     n \<le> length specs \<and> (specs \<noteq> [] \<longrightarrow> 0 < n) \<and> (n < length specs \<longrightarrow> isl r)"
proof (induction specs arbitrary: net n r out)
  case Nil
  then show ?case by simp
next
  case (Cons s ss)
  obtain url label v where s: "s = (url, label, v)"
    by (cases s) auto
  from Cons.prems s show ?case
    by (auto split: prod.splits sum.splits dest!: Cons.IH)
qed

lemma run_output_trace:
  "run_output w =
     (case trace check_specs (network w) of
        (n, r, out) \<Rightarrow> ConsoleLog (str ''--- Running Disney API Tests ---'') # out @ [summary r])"
  by (simp add: run_output_def runTests_trace split: prod.splits)

lemma run_requests_trace:
  "run_requests w = (case trace check_specs (network w) of (n, r, out) \<Rightarrow> take n check_urls)"
  by (simp add: run_requests_def runTests_trace split: prod.splits)

lemma run_body_trace:
  "fst (run_body (banner w)) = fst (snd (trace check_specs (network w)))"
  by (simp add: run_body_until_failure checks_shaped run_until_failure_trace banner_simps
        console_log_def split: prod.splits sum.splits)

subsection \<open>What the console calls show\<close>

lemma pass_lines_quiet: "\<forall>s\<in>set pass_lines. quiet s"
  unfolding pass_lines_def quiet_def by code_simp

lemma labels_fail:
  "failure_label ''Test 1: FAILED''" "failure_label ''Test 2: FAILED''"
  "failure_label ''Test 3: FAILED''" "failure_label ''Test 4: FAILED.''"
  "failure_label ''Test 5: FAILED.''"
  unfolding failure_label_def by code_simp+

lemma verdict_status_lines: "set (fst (verdict_status x)) \<subseteq> set pass_lines"
  by (simp add: verdict_status_def pass_lines_def split: sum.splits)

lemma with_body_lines:
  "(\<And>b. set (fst (f b)) \<subseteq> set pass_lines) \<Longrightarrow> set (fst (with_body f x)) \<subseteq> set pass_lines"
  by (simp add: with_body_def split: sum.splits)

lemma verdict_shape_lines: "set (fst (verdict_shape b)) \<subseteq> set pass_lines"
  by (simp add: verdict_shape_def pass_lines_def split: js_value.splits)

lemma verdict_names_lines: "set (fst (verdict_names b)) \<subseteq> set pass_lines"
  by (simp add: verdict_names_def pass_lines_def split: sum.splits)

lemma verdict_mickey_lines: "set (fst (verdict_mickey b)) \<subseteq> set pass_lines"
  by (simp add: verdict_mickey_def pass_lines_def split: sum.splits)

lemma verdict_page_lines: "set (fst (verdict_page b)) \<subseteq> set pass_lines"
  by (simp add: verdict_page_def pass_lines_def split: sum.splits)

lemma lines_quiet: "set ls \<subseteq> set pass_lines \<Longrightarrow> s \<in> set ls \<Longrightarrow> quiet s"
  using pass_lines_quiet by blast

lemma check_specs_well_labelled: "well_labelled check_specs"
  unfolding well_labelled_def check_specs_def
  by (auto simp add: labels_fail
        elim: lines_quiet [OF verdict_status_lines]
          lines_quiet [OF with_body_lines [OF verdict_shape_lines]]
          lines_quiet [OF with_body_lines [OF verdict_names_lines]]
          lines_quiet [OF with_body_lines [OF verdict_mickey_lines]]
          lines_quiet [OF with_body_lines [OF verdict_page_lines]])

lemma trace_calls:
  "well_labelled specs \<Longrightarrow> trace specs net = (n, r, out) \<Longrightarrow>
     (\<forall>c\<in>set out. (\<exists>s. c = ConsoleLog (str s) \<and> quiet s)
                   \<or> (\<exists>l e. c = ConsoleError (str l) e \<and> failure_label l))
     \<and> ((\<exists>l e. ConsoleError (str l) e \<in> set out \<and> failure_label l) \<longleftrightarrow> isl r)
     \<and> (\<not> isl r \<longrightarrow> (\<forall>c\<in>set out. \<exists>s. c = ConsoleLog (str s) \<and> quiet s))"
proof (induction specs arbitrary: net n r out)
  case Nil
  then show ?case by auto
next
  case (Cons s ss)
  obtain url label v where s: "s = (url, label, v)"
    by (cases s) auto
  obtain logs r0 where v: "v (net 0 url) = (logs, r0)"
    by (cases "v (net 0 url)") auto
  from Cons.prems(1) s have lab: "failure_label label"
    and q: "\<forall>s\<in>set (fst (v (net 0 url))). quiet s"
    and wl: "well_labelled ss"
    by (auto simp: well_labelled_def)
  from q v have logs: "\<forall>c\<in>set (map (\<lambda>s. ConsoleLog (str s)) logs).
      \<exists>s. c = ConsoleLog (str s) \<and> quiet s"
    by auto
  show ?case
  proof (cases r0)
    case (Inl e)
    with Cons.prems(2) s v have "n = 1" "r = Inl e"
      "out = map (\<lambda>s. ConsoleLog (str s)) logs @ [ConsoleError (str label) e]"
      by auto
    with logs lab show ?thesis
      by auto
  next
    case (Inr u)
    obtain n' r' out' where t: "trace ss (\<lambda>k. net (Suc k)) = (n', r', out')"
      by (cases "trace ss (\<lambda>k. net (Suc k))") auto
    with Inr Cons.prems(2) s v have "r = r'" "out = map (\<lambda>s. ConsoleLog (str s)) logs @ out'"
      by auto
    with logs Cons.IH [OF wl t] show ?thesis
      by auto
  qed
qed

lemma quiet_prints:
  "quiet s \<Longrightarrow> \<not> prints engine ''FAILED'' (ConsoleLog (str s))"
  "quiet s \<Longrightarrow> \<not> prints engine ''Tests failed!'' (ConsoleLog (str s))"
  "quiet s \<Longrightarrow> \<not> prints engine ''All tests completed successfully'' (ConsoleLog (str s))"
  by (simp_all add: quiet_def prints_def)

lemma label_prints:
  "failure_label l \<Longrightarrow> prints engine ''FAILED'' (ConsoleError (str l) e)"
  by (simp add: failure_label_def prints_def sublist_str_left)

lemma banner_quiet: "quiet ''--- Running Disney API Tests ---''"
  unfolding quiet_def by code_simp

lemma success_line_prints:
  "prints engine ''All tests completed successfully''
     (ConsoleLog (str (CHR 0x0A # ''All tests completed successfully'')))"
  "\<not> prints engine ''FAILED'' (ConsoleLog (str (CHR 0x0A # ''All tests completed successfully'')))"
  "\<not> prints engine ''Tests failed!''
       (ConsoleLog (str (CHR 0x0A # ''All tests completed successfully'')))"
proof -
  have "sublist ''All tests completed successfully''
          (CHR 0x0A # ''All tests completed successfully'')"
    and "\<not> sublist ''FAILED'' (CHR 0x0A # ''All tests completed successfully'')"
    and "\<not> sublist ''Tests failed!'' (CHR 0x0A # ''All tests completed successfully'')"
    by code_simp+
  then show
    "prints engine ''All tests completed successfully''
       (ConsoleLog (str (CHR 0x0A # ''All tests completed successfully'')))"
    "\<not> prints engine ''FAILED'' (ConsoleLog (str (CHR 0x0A # ''All tests completed successfully'')))"
    "\<not> prints engine ''Tests failed!''
         (ConsoleLog (str (CHR 0x0A # ''All tests completed successfully'')))"
    by (simp_all add: prints_def)
qed

lemma failure_summary_prints:
  "prints engine ''Tests failed!'' (ConsoleError (str (CHR 0x0A # ''Tests failed!'')) e)"
proof -
  have "sublist ''Tests failed!'' (CHR 0x0A # ''Tests failed!'')"
    by code_simp
  then show ?thesis
    by (simp add: prints_def sublist_str_left)
qed

lemma success_line_not_quiet: "\<not> quiet (CHR 0x0A # ''All tests completed successfully'')"
  unfolding quiet_def by code_simp

subsection \<open>Concrete runs\<close>

lemma good_page_verdicts:
  "verdict_status (Inr \<lparr>status = 200, json = Inr b\<rparr>) = ([''Test 1: Status code is 200''], Inr ())"
  "verdict_shape good_page =
     ([''Test 2: Response 'data' property is an array'', ''Test 2: Data array is not empty''], Inr ())"
  "verdict_names good_page = ([''Test 3: All characters have a 'name' property''], Inr ())"
  "verdict_mickey good_page = ([''Test 4: 'Mickey Mouse' character found.''], Inr ())"
  "verdict_page good_page =
     ([''Test 5: Pagination returns the correct number of items per page (50).''], Inr ())"
proof -
  have r: "replicate 50 (named ''Mickey Mouse'') =
             named ''Mickey Mouse'' # replicate 49 (named ''Mickey Mouse'')"
    by (simp add: replicate_Suc [symmetric] del: replicate_Suc)
  have s: "array_some (\<lambda>character. map_sum id (\<lambda>name. JBool (name = JString (str ''Mickey Mouse'')))
                               (get character (str ''name''))) (replicate 50 (named ''Mickey Mouse''))
             = Inr True"
    unfolding r by (rule array_some_head_mickey) (rule mickey_named(1))
  show "verdict_status (Inr \<lparr>status = 200, json = Inr b\<rparr>) = ([''Test 1: Status code is 200''], Inr ())"
    by (simp add: verdict_status_def)
  show "verdict_shape good_page =
     ([''Test 2: Response 'data' property is an array'', ''Test 2: Data array is not empty''], Inr ())"
    by (simp add: verdict_shape_def good_page_def page_of_def)
  show "verdict_names good_page = ([''Test 3: All characters have a 'name' property''], Inr ())"
    by (simp add: verdict_names_def good_page_def page_of_def destructure_simps
          array_every_all_named mickey_named)
  show "verdict_mickey good_page = ([''Test 4: 'Mickey Mouse' character found.''], Inr ())"
    by (simp add: verdict_mickey_def good_page_def page_of_def destructure_simps s)
  show "verdict_page good_page =
     ([''Test 5: Pagination returns the correct number of items per page (50).''], Inr ())"
    by (simp add: verdict_page_cases good_page_def page_of_def)
qed

lemma all_pass_trace:
  "trace check_specs (network all_pass_world) =
     (5, Inr (), map (\<lambda>s. ConsoleLog (str s)) pass_lines)"
  by (simp add: all_pass_world_def check_specs_def respond_with_simps with_body_def
        good_page_verdicts pass_lines_def)

lemma respond_404_trace:
  "trace check_specs (network (respond_with 404 b)) =
     (1, Inl (Error (str ''Expected status code 200, but got 404 '' @ cross_mark)),
      [ConsoleError (str ''Test 1: FAILED'')
         (Error (str ''Expected status code 200, but got 404 '' @ cross_mark))])"
proof -
  have n: "show_nat 404 = ''404''"
    by code_simp
  show ?thesis
    by (simp add: check_specs_def respond_with_def verdict_status_def n)
qed

lemma null_element_trace:
  "trace check_specs (network null_element_world) =
     (3, Inl (TypeError (ReadOfNullish (str ''name''))),
      map (\<lambda>s. ConsoleLog (str s))
        [''Test 1: Status code is 200'', ''Test 2: Response 'data' property is an array'',
         ''Test 2: Data array is not empty'']
      @ [ConsoleError (str ''Test 3: FAILED'') (TypeError (ReadOfNullish (str ''name'')))])"
  by (simp add: null_element_world_def check_specs_def respond_with_simps with_body_def
        verdict_status_def verdict_shape_def verdict_names_def page_of_def destructure_simps
        get_def)

lemma echo_trace:
  "trace check_specs (network echo_world) =
     (5, Inl (Error (str ''Expected 50 items per page, but got All tests completed successfully.'')),
      map (\<lambda>s. ConsoleLog (str s))
        [''Test 1: Status code is 200'', ''Test 2: Response 'data' property is an array'',
         ''Test 2: Data array is not empty'', ''Test 3: All characters have a 'name' property'',
         ''Test 4: 'Mickey Mouse' character found.'']
      @ [ConsoleError (str ''Test 5: FAILED.'')
           (Error (str ''Expected 50 items per page, but got All tests completed successfully.''))])"
  by (simp add: echo_world_def fresh_simps check_specs_def ok_def with_body_def
        good_page_verdicts verdict_page_cases echo_body_def count_error_def
        str_append [symmetric])

section \<open>The runner\<close>

text \<open>
  Claim C1. A run is the sequence of the five checks in the order Status Code, Data Shape,
  Name Presence, Specific Record, Pagination, cut at the first check that throws:
  \<^verbatim>\<open>runTests\<close> does what \<open>run_until_failure\<close> does on that list and then logs the summary.
  The requests made are those of the first \<open>n\<close> checks, one each, where \<open>n\<close> is the number
  of checks invoked; fewer than five are invoked only after a failure, and if the first
  check fails then the only request of the run is its own.
\<close>

theorem runTests_halts_at_first_failure:
  "case run_until_failure checks (banner w) of
     (n, r, w') \<Rightarrow>
       runTests w = (Inr (), w'\<lparr>console := console w' @ [summary r]\<rparr>)
     \<and> requests (snd (runTests w)) = requests w @ take n check_urls
     \<and> 1 \<le> n \<and> n \<le> 5 \<and> (n < 5 \<longrightarrow> isl r)
     \<and> (isl (fst (testStatusCode (banner w))) \<longrightarrow>
          n = 1 \<and> requests (snd (runTests w)) = requests w @ [API_URL])"
proof -
  obtain n r out where t: "trace check_specs (network w) = (n, r, out)"
    by (cases "trace check_specs (network w)") auto
  from trace_count [OF t] have c: "1 \<le> n" "n \<le> 5" "n < 5 \<longrightarrow> isl r"
    by (simp_all add: check_specs_def)
  have f: "n = 1" if "isl (fst (testStatusCode (banner w)))"
    using that t
    by (auto simp add: testStatusCode_shape check_shape_result banner_def console_log_def
          check_specs_def split: prod.splits sum.splits)
  have ru: "run_until_failure checks (banner w) =
              (n, r, (banner w)\<lparr>network := (\<lambda>k. network w (k + n)),
                                  requests := requests w @ take n check_urls,
                                  console := console (banner w) @ out\<rparr>)"
    by (simp add: checks_shaped run_until_failure_trace banner_simps t check_urls_specs)
  have rt: "runTests w =
              (Inr (), w\<lparr>network := (\<lambda>k. network w (k + n)),
                          requests := requests w @ take n check_urls,
                          console := console w @ ConsoleLog (str ''--- Running Disney API Tests ---'')
                                       # out @ [summary r]\<rparr>)"
    by (simp add: runTests_trace t)
  have tk: "take 1 check_urls = [API_URL]"
    by (simp add: check_urls_def)
  have bw: "banner w = w\<lparr>console := console w @ [ConsoleLog (str ''--- Running Disney API Tests ---'')]\<rparr>"
    by (simp add: banner_def console_log_def)
  from c f tk show ?thesis
    unfolding ru by (auto simp add: rt bw)
qed

theorem runTests_halts_at_first_failure_witness:
  "isl (fst (testStatusCode (banner (respond_with 404 JNull))))
   \<and> fst (run_until_failure checks (banner (respond_with 404 JNull))) = 1
   \<and> requests (snd (runTests (respond_with 404 JNull))) = [API_URL]
   \<and> \<not> isl (fst (snd (run_until_failure checks (banner all_pass_world))))
   \<and> fst (run_until_failure checks (banner all_pass_world)) = 5
   \<and> requests (snd (runTests all_pass_world)) = check_urls"
proof -
  have h: "isl (fst (testStatusCode (banner (respond_with 404 JNull))))"
    by (simp add: testStatusCode_shape check_shape_result banner_simps respond_with_simps
          verdict_status_def)
  have g: "\<not> isl (fst (snd (run_until_failure checks (banner all_pass_world))))"
    by (simp add: checks_shaped run_until_failure_trace banner_simps all_pass_trace)
  have r: "requests all_pass_world = []"
    by (simp add: all_pass_world_def respond_with_simps)
  have a: "fst (run_until_failure checks (banner (respond_with 404 JNull))) = 1
     \<and> requests (snd (runTests (respond_with 404 JNull))) = [API_URL]"
    using runTests_halts_at_first_failure [of "respond_with 404 JNull"] h
    by (auto simp add: respond_with_simps split: prod.splits)
  have b: "fst (run_until_failure checks (banner all_pass_world)) = 5
     \<and> requests (snd (runTests all_pass_world)) = check_urls"
    using runTests_halts_at_first_failure [of all_pass_world] g r
    by (auto simp add: check_urls_def split: prod.splits)
  from h g a b show ?thesis
    by simp
qed

text \<open>
  Claim C7, as amended. A run in which a check throws prints a line with \<^verbatim>\<open>FAILED\<close> and a
  line with \<^verbatim>\<open>Tests failed!\<close>. A run in which all five checks pass prints a line with
  \<^verbatim>\<open>All tests completed successfully\<close> and no line with either of the other two texts.
  So the two failure texts are printed in the failing runs and in no other. The call that
  logs the success line is made in the passing runs and in no other, but its text is not
  theirs alone: a failing run prints the message of the error, which can carry it. All
  this holds whatever the engine's wording of its own errors.
\<close>

theorem run_prints_outcome:
  "(isl (fst (run_body (banner w))) \<longrightarrow>
      list_ex (prints engine ''FAILED'') (run_output w)
      \<and> list_ex (prints engine ''Tests failed!'') (run_output w))
   \<and> (\<not> isl (fst (run_body (banner w))) \<longrightarrow>
      list_ex (prints engine ''All tests completed successfully'') (run_output w)
      \<and> \<not> list_ex (prints engine ''FAILED'') (run_output w)
      \<and> \<not> list_ex (prints engine ''Tests failed!'') (run_output w))
   \<and> (ConsoleLog (str (CHR 0x0A # ''All tests completed successfully'')) \<in> set (run_output w)
        \<longleftrightarrow> \<not> isl (fst (run_body (banner w))))"
proof -
  obtain n r out where t: "trace check_specs (network w) = (n, r, out)"
    by (cases "trace check_specs (network w)") auto
  have m: "(\<forall>c\<in>set out. (\<exists>s. c = ConsoleLog (str s) \<and> quiet s)
                   \<or> (\<exists>l e. c = ConsoleError (str l) e \<and> failure_label l))
     \<and> ((\<exists>l e. ConsoleError (str l) e \<in> set out \<and> failure_label l) \<longleftrightarrow> isl r)
     \<and> (\<not> isl r \<longrightarrow> (\<forall>c\<in>set out. \<exists>s. c = ConsoleLog (str s) \<and> quiet s))"
    using check_specs_well_labelled t by (rule trace_calls)
  have o: "run_output w = ConsoleLog (str ''--- Running Disney API Tests ---'') # out @ [summary r]"
    by (simp add: run_output_trace t)
  have b: "fst (run_body (banner w)) = r"
    by (simp add: run_body_trace t)
  have no_success: "ConsoleLog (str (CHR 0x0A # ''All tests completed successfully'')) \<notin> set out"
  proof
    assume "ConsoleLog (str (CHR 0x0A # ''All tests completed successfully'')) \<in> set out"
    with m obtain s where "str (CHR 0x0A # ''All tests completed successfully'') = str s" "quiet s"
      by blast
    then show False
      using success_line_not_quiet by simp
  qed
  have fail: "list_ex (prints engine ''FAILED'') (run_output w)
      \<and> list_ex (prints engine ''Tests failed!'') (run_output w)
      \<and> ConsoleLog (str (CHR 0x0A # ''All tests completed successfully'')) \<notin> set (run_output w)"
    if "isl r"
  proof -
    from that obtain e where e: "r = Inl e"
      by (cases r) auto
    from that m obtain l e' where "ConsoleError (str l) e' \<in> set out" "failure_label l"
      by blast
    then have "\<exists>c\<in>set out. prints engine ''FAILED'' c"
      using label_prints by blast
    with no_success show ?thesis
      by (auto simp add: o e summary_def list_ex_iff failure_summary_prints)
  qed
  have pass: "list_ex (prints engine ''All tests completed successfully'') (run_output w)
      \<and> \<not> list_ex (prints engine ''FAILED'') (run_output w)
      \<and> \<not> list_ex (prints engine ''Tests failed!'') (run_output w)
      \<and> ConsoleLog (str (CHR 0x0A # ''All tests completed successfully'')) \<in> set (run_output w)"
    if "\<not> isl r"
  proof -
    from that have r: "r = Inr ()"
      by (cases r) auto
    from that m have q: "\<forall>c\<in>set out. \<exists>s. c = ConsoleLog (str s) \<and> quiet s"
      by blast
    then have "\<forall>c\<in>set out. \<not> prints engine ''FAILED'' c \<and> \<not> prints engine ''Tests failed!'' c"
      by (auto simp add: quiet_prints)
    then show ?thesis
      using quiet_prints [OF banner_quiet, of engine]
      by (auto simp add: o r summary_def list_ex_iff success_line_prints)
  qed
  from fail pass show ?thesis
    unfolding b by blast
qed

theorem run_prints_outcome_witness:
  "isl (fst (run_body (banner (respond_with 404 JNull))))
   \<and> list_ex (prints (\<lambda>f. []) ''FAILED'') (run_output (respond_with 404 JNull))
   \<and> list_ex (prints (\<lambda>f. []) ''Tests failed!'') (run_output (respond_with 404 JNull))
   \<and> ConsoleLog (str (CHR 0x0A # ''All tests completed successfully''))
        \<notin> set (run_output (respond_with 404 JNull))
   \<and> \<not> isl (fst (run_body (banner all_pass_world)))
   \<and> list_ex (prints (\<lambda>f. []) ''All tests completed successfully'') (run_output all_pass_world)
   \<and> \<not> list_ex (prints (\<lambda>f. []) ''FAILED'') (run_output all_pass_world)
   \<and> \<not> list_ex (prints (\<lambda>f. []) ''Tests failed!'') (run_output all_pass_world)
   \<and> ConsoleLog (str (CHR 0x0A # ''All tests completed successfully''))
        \<in> set (run_output all_pass_world)"
proof -
  have h: "isl (fst (run_body (banner (respond_with 404 JNull))))"
    by (simp add: run_body_trace respond_404_trace)
  have g: "\<not> isl (fst (run_body (banner all_pass_world)))"
    by (simp add: run_body_trace all_pass_trace)
  from run_prints_outcome [of "respond_with 404 JNull" "\<lambda>f. []"]
    run_prints_outcome [of all_pass_world "\<lambda>f. []"] h g
  show ?thesis
    by simp
qed

text \<open>
  Against claim C7 as written: the success text and the failure texts are not mutually
  exclusive. When the first four checks pass and the fifth response gives \<^verbatim>\<open>data\<close> a
  \<^verbatim>\<open>length\<close> that is the string \<^verbatim>\<open>All tests completed successfully.\<close>, the run fails and
  prints a line with \<^verbatim>\<open>FAILED\<close>, a line with \<^verbatim>\<open>Tests failed!\<close> and, within both, the
  success text, with or without its full stop.
\<close>

theorem failing_run_prints_success_text:
  "isl (fst (run_body (banner echo_world)))
   \<and> list_ex (prints (\<lambda>f. []) ''FAILED'') (run_output echo_world)
   \<and> list_ex (prints (\<lambda>f. []) ''Tests failed!'') (run_output echo_world)
   \<and> list_ex (prints (\<lambda>f. []) ''All tests completed successfully'') (run_output echo_world)
   \<and> list_ex (prints (\<lambda>f. []) ''All tests completed successfully.'') (run_output echo_world)"
proof -
  have o: "run_output echo_world =
      ConsoleLog (str ''--- Running Disney API Tests ---'')
      # map (\<lambda>s. ConsoleLog (str s))
        [''Test 1: Status code is 200'', ''Test 2: Response 'data' property is an array'',
         ''Test 2: Data array is not empty'', ''Test 3: All characters have a 'name' property'',
         ''Test 4: 'Mickey Mouse' character found.'']
      @ [ConsoleError (str ''Test 5: FAILED.'')
           (Error (str ''Expected 50 items per page, but got All tests completed successfully.'')),
         ConsoleError (str (CHR 0x0A # ''Tests failed!''))
           (Error (str ''Expected 50 items per page, but got All tests completed successfully.''))]"
    by (simp add: run_output_trace echo_trace summary_def)
  have p5: "printed (\<lambda>f. []) (ConsoleError (str ''Test 5: FAILED.'')
           (Error (str ''Expected 50 items per page, but got All tests completed successfully.'')))
      = str ''Test 5: FAILED. Expected 50 items per page, but got All tests completed successfully.''"
    by (simp add: str_append [symmetric])
  have ps: "printed (\<lambda>f. []) (ConsoleError (str (CHR 0x0A # ''Tests failed!''))
           (Error (str ''Expected 50 items per page, but got All tests completed successfully.'')))
      = str (CHR 0x0A # ''Tests failed! Expected 50 items per page, but got All tests completed successfully.'')"
    by (simp add: str_append [symmetric])
  have s1: "sublist ''FAILED''
      ''Test 5: FAILED. Expected 50 items per page, but got All tests completed successfully.''"
    and s2: "sublist ''Tests failed!''
      (CHR 0x0A # ''Tests failed! Expected 50 items per page, but got All tests completed successfully.'')"
    and s3: "sublist ''All tests completed successfully''
      ''Test 5: FAILED. Expected 50 items per page, but got All tests completed successfully.''"
    and s4: "sublist ''All tests completed successfully.''
      ''Test 5: FAILED. Expected 50 items per page, but got All tests completed successfully.''"
    by code_simp+
  have h: "isl (fst (run_body (banner echo_world)))"
    by (simp add: run_body_trace echo_trace)
  have m5: "ConsoleError (str ''Test 5: FAILED.'')
           (Error (str ''Expected 50 items per page, but got All tests completed successfully.''))
      \<in> set (run_output echo_world)"
    and ms: "ConsoleError (str (CHR 0x0A # ''Tests failed!''))
           (Error (str ''Expected 50 items per page, but got All tests completed successfully.''))
      \<in> set (run_output echo_world)"
    by (simp_all add: o)
  have f1: "prints (\<lambda>f. []) ''FAILED'' (ConsoleError (str ''Test 5: FAILED.'')
           (Error (str ''Expected 50 items per page, but got All tests completed successfully.'')))"
    and f3: "prints (\<lambda>f. []) ''All tests completed successfully'' (ConsoleError (str ''Test 5: FAILED.'')
           (Error (str ''Expected 50 items per page, but got All tests completed successfully.'')))"
    and f4: "prints (\<lambda>f. []) ''All tests completed successfully.'' (ConsoleError (str ''Test 5: FAILED.'')
           (Error (str ''Expected 50 items per page, but got All tests completed successfully.'')))"
    unfolding prints_def p5 sublist_str by (rule s1, rule s3, rule s4)
  have f2: "prints (\<lambda>f. []) ''Tests failed!'' (ConsoleError (str (CHR 0x0A # ''Tests failed!''))
           (Error (str ''Expected 50 items per page, but got All tests completed successfully.'')))"
    unfolding prints_def ps sublist_str by (rule s2)
  have "list_ex (prints (\<lambda>f. []) ''FAILED'') (run_output echo_world)"
    unfolding list_ex_iff by (rule bexI [OF _ m5]) (rule f1)
  moreover have "list_ex (prints (\<lambda>f. []) ''Tests failed!'') (run_output echo_world)"
    unfolding list_ex_iff by (rule bexI [OF _ ms]) (rule f2)
  moreover have "list_ex (prints (\<lambda>f. []) ''All tests completed successfully'') (run_output echo_world)"
    unfolding list_ex_iff by (rule bexI [OF _ m5]) (rule f3)
  moreover have "list_ex (prints (\<lambda>f. []) ''All tests completed successfully.'') (run_output echo_world)"
    unfolding list_ex_iff by (rule bexI [OF _ m5]) (rule f4)
  ultimately show ?thesis
    using h by blast
qed

text \<open>
  Claim C8. What a run returns, logs and requests, and which checks pass or fail in it,
  depends on the network alone, not on what was logged or requested before: two worlds
  with the same network give the same run. In particular a second run, started in the
  world the first one left and served the same responses again, repeats the first.
\<close>

theorem run_depends_on_responses_only:
  assumes "network w1 = network w2"
  shows "fst (runTests w1) = fst (runTests w2)
       \<and> fst (run_body (banner w1)) = fst (run_body (banner w2))
       \<and> run_output w1 = run_output w2
       \<and> run_requests w1 = run_requests w2
       \<and> fst (run_until_failure checks (banner w1)) = fst (run_until_failure checks (banner w2))
       \<and> fst (snd (run_until_failure checks (banner w1)))
           = fst (snd (run_until_failure checks (banner w2)))"
  using assms
  by (simp add: run_output_trace run_requests_trace run_body_trace runTests_trace
        checks_shaped run_until_failure_trace banner_simps split: prod.splits)

theorem run_depends_on_responses_only_witness:
  "network ((snd (runTests (respond_with 404 JNull)))\<lparr>network := network (respond_with 404 JNull)\<rparr>)
     = network (respond_with 404 JNull)
   \<and> run_output ((snd (runTests (respond_with 404 JNull)))\<lparr>network := network (respond_with 404 JNull)\<rparr>)
     = run_output (respond_with 404 JNull)
   \<and> run_requests ((snd (runTests (respond_with 404 JNull)))\<lparr>network := network (respond_with 404 JNull)\<rparr>)
     = run_requests (respond_with 404 JNull)
   \<and> fst (run_body (banner ((snd (runTests (respond_with 404 JNull)))\<lparr>network := network (respond_with 404 JNull)\<rparr>)))
     = fst (run_body (banner (respond_with 404 JNull)))
   \<and> run_requests (respond_with 404 JNull) = [API_URL]
   \<and> requests ((snd (runTests (respond_with 404 JNull)))\<lparr>network := network (respond_with 404 JNull)\<rparr>)
     = [API_URL]"
proof -
  have q: "run_requests (respond_with 404 JNull) = [API_URL]"
    by (simp add: run_requests_trace respond_404_trace check_urls_def)
  have p: "requests ((snd (runTests (respond_with 404 JNull)))\<lparr>network := network (respond_with 404 JNull)\<rparr>)
     = [API_URL]"
    by (simp add: runTests_trace respond_404_trace check_urls_def respond_with_simps)
  from run_depends_on_responses_only
    [of "(snd (runTests (respond_with 404 JNull)))\<lparr>network := network (respond_with 404 JNull)\<rparr>"
        "respond_with 404 JNull"] q p
  show ?thesis
    by simp
qed

text \<open>
  Claim C9. Whatever the checks do, \<^verbatim>\<open>runTests\<close> returns normally. If a check throws an
  error, whichever check and whichever error, the \<^verbatim>\<open>try\<close> block of the runner ends with
  that error, in the world the failing check left, the runner's \<^verbatim>\<open>catch\<close> logs
  \<^verbatim>\<open>Tests failed!\<close> with that error as one more console call, and nothing is thrown
  further. If all the checks pass, \<^verbatim>\<open>runTests\<close> ends in the world in which the \<^verbatim>\<open>try\<close>
  block ended, the success line logged.
\<close>

theorem runTests_catches_and_logs:
  "fst (runTests w) = Inr ()
   \<and> (case run_until_failure checks (banner w) of
        (n, r, w') \<Rightarrow>
          (\<forall>e. r = Inl e \<longrightarrow>
             run_body (banner w) = (Inl e, w')
             \<and> snd (runTests w) =
                 w'\<lparr>console := console w' @ [ConsoleError (str (CHR 0x0A # ''Tests failed!'')) e]\<rparr>)
        \<and> (r = Inr () \<longrightarrow>
             snd (run_body (banner w)) =
               w'\<lparr>console := console w'
                     @ [ConsoleLog (str (CHR 0x0A # ''All tests completed successfully''))]\<rparr>
             \<and> runTests w = run_body (banner w)))"
proof -
  obtain n r w' where ru: "run_until_failure checks (banner w) = (n, r, w')"
    by (cases "run_until_failure checks (banner w)") auto
  have rt: "runTests w = try_catch run_body
      (\<lambda>error. console_error (str (CHR 0x0A # ''Tests failed!'')) error) (banner w)"
    by (simp add: runTests_def and_then_def banner_def console_log_def)
  show ?thesis
  proof (cases r)
    case (Inl e)
    with ru have "run_body (banner w) = (Inl e, w')"
      by (simp add: run_body_until_failure)
    with ru Inl show ?thesis
      by (simp add: rt try_catch_def console_error_def)
  next
    case (Inr u)
    with ru have "run_body (banner w) =
        (Inr (), w'\<lparr>console := console w'
                     @ [ConsoleLog (str (CHR 0x0A # ''All tests completed successfully''))]\<rparr>)"
      by (simp add: run_body_until_failure console_log_def)
    with ru Inr show ?thesis
      by (simp add: rt try_catch_def)
  qed
qed

theorem runTests_catches_and_logs_witness:
  "fst (snd (run_until_failure checks (banner null_element_world)))
     = Inl (TypeError (ReadOfNullish (str ''name'')))
   \<and> fst (run_body (banner null_element_world)) = Inl (TypeError (ReadOfNullish (str ''name'')))
   \<and> fst (runTests null_element_world) = Inr ()
   \<and> last (console (snd (runTests null_element_world)))
       = ConsoleError (str (CHR 0x0A # ''Tests failed!'')) (TypeError (ReadOfNullish (str ''name'')))
   \<and> fst (snd (run_until_failure checks (banner all_pass_world))) = Inr ()
   \<and> runTests all_pass_world = run_body (banner all_pass_world)
   \<and> last (console (snd (runTests all_pass_world)))
       = ConsoleLog (str (CHR 0x0A # ''All tests completed successfully''))"
proof -
  have h: "fst (snd (run_until_failure checks (banner null_element_world)))
     = Inl (TypeError (ReadOfNullish (str ''name'')))"
    by (simp add: checks_shaped run_until_failure_trace banner_simps null_element_trace)
  have g: "fst (snd (run_until_failure checks (banner all_pass_world))) = Inr ()"
    by (simp add: checks_shaped run_until_failure_trace banner_simps all_pass_trace)
  have a: "fst (run_body (banner null_element_world)) = Inl (TypeError (ReadOfNullish (str ''name'')))
   \<and> fst (runTests null_element_world) = Inr ()
   \<and> last (console (snd (runTests null_element_world)))
       = ConsoleError (str (CHR 0x0A # ''Tests failed!'')) (TypeError (ReadOfNullish (str ''name'')))"
    using runTests_catches_and_logs [of null_element_world] h
    by (auto split: prod.splits)
  have b: "runTests all_pass_world = run_body (banner all_pass_world)
   \<and> last (console (snd (runTests all_pass_world)))
       = ConsoleLog (str (CHR 0x0A # ''All tests completed successfully''))"
    using runTests_catches_and_logs [of all_pass_world] g
    by (auto split: prod.splits)
  from h g a b show ?thesis
    by blast
qed

section \<open>The single checks\<close>

text \<open>
  Claim C2. When the fetch resolves to a response, the Status Code check returns normally
  if and only if the status is 200; for any other status it throws an error whose message
  is \<^verbatim>\<open>Expected status code 200, but got\<close>, the status in decimal and the cross mark, so
  that the message contains both \<^verbatim>\<open>Expected status code 200\<close> and the status.
\<close>

theorem testStatusCode_iff_200:
  assumes "network w 0 API_URL = Inr response"
  shows "(fst (testStatusCode w) = Inr () \<longleftrightarrow> status response = 200)
       \<and> (status response \<noteq> 200 \<longrightarrow>
            fst (testStatusCode w) =
              Inl (Error (str (''Expected status code 200, but got ''
                               @ show_nat (status response) @ '' '') @ cross_mark))
          \<and> sublist (str ''Expected status code 200'')
              (str (''Expected status code 200, but got ''
                    @ show_nat (status response) @ '' '') @ cross_mark)
          \<and> sublist (str (show_nat (status response)))
              (str (''Expected status code 200, but got ''
                    @ show_nat (status response) @ '' '') @ cross_mark))"
proof -
  have r: "fst (testStatusCode w) = snd (verdict_status (Inr response))"
    using assms by (simp add: testStatusCode_shape check_shape_result)
  have "sublist ''Expected status code 200''
          (''Expected status code 200'' @ '', but got '' @ show_nat (status response) @ '' '')"
    by (rule sublist_append_rightI)
  then have s1: "sublist (str ''Expected status code 200'')
              (str (''Expected status code 200, but got ''
                    @ show_nat (status response) @ '' '') @ cross_mark)"
    by (intro sublist_str_left) simp
  have "sublist (show_nat (status response))
          (''Expected status code 200, but got '' @ show_nat (status response) @ '' '')"
    by (rule sublist_appendI)
  then have s2: "sublist (str (show_nat (status response)))
              (str (''Expected status code 200, but got ''
                    @ show_nat (status response) @ '' '') @ cross_mark)"
    by (rule sublist_str_left)
  from r s1 s2 show ?thesis
    by (simp add: verdict_status_def)
qed

theorem testStatusCode_iff_200_witness:
  "network (respond_with 404 JNull) 0 API_URL = Inr \<lparr>status = 404, json = Inr JNull\<rparr>
   \<and> fst (testStatusCode (respond_with 404 JNull)) \<noteq> Inr ()
   \<and> fst (testStatusCode (respond_with 404 JNull)) =
       Inl (Error (str ''Expected status code 200, but got 404 '' @ cross_mark))
   \<and> sublist (str ''404'') (str ''Expected status code 200, but got 404 '' @ cross_mark)"
proof -
  have n: "show_nat 404 = ''404''"
    by code_simp
  have h: "network (respond_with 404 JNull) 0 API_URL = Inr \<lparr>status = 404, json = Inr JNull\<rparr>"
    by (simp add: respond_with_simps)
  from testStatusCode_iff_200 [OF h] n h show ?thesis
    by simp
qed

text \<open>
  Claim C3, as amended. The Data Shape check returns normally if and only if the body has
  a non-empty array as its \<^verbatim>\<open>data\<close>. An empty array gives the message
  \<^verbatim>\<open>Data array is empty.\<close>; a body other than null whose \<^verbatim>\<open>data\<close> is missing or is not
  an array gives, in both cases, the one message
  \<^verbatim>\<open>Response body does not have a valid 'data' array.\<close> So there are two messages, which
  differ, and not three.
\<close>

theorem testDataStructure_two_messages:
  assumes "network w 0 API_URL = Inr response"
    and "json response = Inr body"
  shows "(fst (testDataStructure w) = Inr () \<longleftrightarrow>
            (\<exists>xs. lookup body (str ''data'') = JArray xs \<and> xs \<noteq> []))
       \<and> (lookup body (str ''data'') = JArray [] \<longrightarrow>
            fst (testDataStructure w) = Inl (Error (str ''Data array is empty.'')))
       \<and> (\<not> nullish body \<and> \<not> isArray (lookup body (str ''data'')) \<longrightarrow>
            fst (testDataStructure w) =
              Inl (Error (str ''Response body does not have a valid 'data' array.'')))
       \<and> str ''Data array is empty.''
            \<noteq> str ''Response body does not have a valid 'data' array.''"
proof -
  have r: "fst (testDataStructure w) = snd (verdict_shape body)"
    using assms by (simp add: testDataStructure_shape body_result)
  show ?thesis
    by (cases body; cases "lookup body (str ''data'')")
       (simp_all add: r verdict_shape_def)
qed

theorem testDataStructure_two_messages_witness:
  "fst (testDataStructure (respond_with 200 (page_of [named ''A'']))) = Inr ()
   \<and> fst (testDataStructure (respond_with 200 (page_of []))) =
       Inl (Error (str ''Data array is empty.''))
   \<and> fst (testDataStructure (respond_with 200 (JObject []))) =
       Inl (Error (str ''Response body does not have a valid 'data' array.''))"
  using testDataStructure_two_messages [of "respond_with 200 (page_of [named ''A''])"
      "\<lparr>status = 200, json = Inr (page_of [named ''A''])\<rparr>" "page_of [named ''A'']"]
    testDataStructure_two_messages [of "respond_with 200 (page_of [])"
      "\<lparr>status = 200, json = Inr (page_of [])\<rparr>" "page_of []"]
    testDataStructure_two_messages [of "respond_with 200 (JObject [])"
      "\<lparr>status = 200, json = Inr (JObject [])\<rparr>" "JObject []"]
  by (simp add: respond_with_simps page_of_def)

text \<open>
  Against claim C3 as written: a body without \<^verbatim>\<open>data\<close> and a body whose \<^verbatim>\<open>data\<close> is the
  number 5 fail with the same message.
\<close>

theorem missing_and_not_array_share_message:
  "fst (testDataStructure (respond_with 200 (JObject []))) =
     Inl (Error (str ''Response body does not have a valid 'data' array.''))
   \<and> fst (testDataStructure (respond_with 200 (JObject [(str ''data'', JNum 5)]))) =
     Inl (Error (str ''Response body does not have a valid 'data' array.''))"
  by (simp add: testDataStructure_shape check_shape_result respond_with_simps with_body_def
        verdict_shape_def)

text \<open>
  Claim C4, as amended. When \<^verbatim>\<open>data\<close> is an array, the Name Presence check returns
  normally if and only if every element has a truthy \<^verbatim>\<open>name\<close>. Otherwise the first
  element without one decides: if it is not null (or undefined), the check throws the one
  generic message, which names no record; if it is, the check throws the \<^verbatim>\<open>TypeError\<close>
  of reading \<^verbatim>\<open>name\<close> from it.
\<close>

theorem testCharactersHaveNames_first_unnamed:
  assumes "network w 0 API_URL = Inr response"
    and "json response = Inr body"
    and "lookup body (str ''data'') = JArray xs"
  shows "(fst (testCharactersHaveNames w) = Inr () \<longleftrightarrow> (\<forall>x\<in>set xs. has_truthy_name x))
       \<and> (\<forall>x. find (\<lambda>x. \<not> has_truthy_name x) xs = Some x \<longrightarrow>
            fst (testCharactersHaveNames w) =
              Inl (if nullish x then TypeError (ReadOfNullish (str ''name''))
                   else Error (str ''Some characters are missing a 'name' property.'')))"
proof -
  have r: "fst (testCharactersHaveNames w) = snd (verdict_names body)"
    using assms by (simp add: testCharactersHaveNames_shape body_result)
  have nn: "\<not> nullish body"
    using assms(3) by (rule lookup_not_nullish)
  show ?thesis
    using nn assms(3)
    by (auto simp add: r verdict_names_def destructure_simps array_every_names find_None_iff
          split: option.splits dest: find_Some_holds)
qed

theorem testCharactersHaveNames_first_unnamed_witness:
  "fst (testCharactersHaveNames (respond_with 200 (page_of [named ''A'']))) = Inr ()
   \<and> find (\<lambda>x. \<not> has_truthy_name x) [named ''A'', JObject []] = Some (JObject [])
   \<and> fst (testCharactersHaveNames (respond_with 200 (page_of [named ''A'', JObject []]))) =
       Inl (Error (str ''Some characters are missing a 'name' property.''))"
proof -
  have f: "find (\<lambda>x. \<not> has_truthy_name x) [named ''A'', JObject []] = Some (JObject [])"
    by (simp add: has_truthy_name_def named_def)
  have a: "fst (testCharactersHaveNames (respond_with 200 (page_of [named ''A'']))) = Inr ()"
    using testCharactersHaveNames_first_unnamed [of "respond_with 200 (page_of [named ''A''])"
      "\<lparr>status = 200, json = Inr (page_of [named ''A''])\<rparr>" "page_of [named ''A'']" "[named ''A'']"]
    by (simp add: respond_with_simps page_of_def has_truthy_name_def named_def)
  have b: "fst (testCharactersHaveNames (respond_with 200 (page_of [named ''A'', JObject []]))) =
       Inl (Error (str ''Some characters are missing a 'name' property.''))"
    using testCharactersHaveNames_first_unnamed [of "respond_with 200 (page_of [named ''A'', JObject []])"
      "\<lparr>status = 200, json = Inr (page_of [named ''A'', JObject []])\<rparr>"
      "page_of [named ''A'', JObject []]" "[named ''A'', JObject []]"] f
    by (simp add: respond_with_simps page_of_def)
  from f a b show ?thesis
    by simp
qed

text \<open>
  Against claim C4 as written: for the array holding just null, whose element has no
  truthy name, the check does not throw the generic message but a \<^verbatim>\<open>TypeError\<close>.
\<close>

theorem null_element_raises_type_error:
  "\<not> has_truthy_name JNull
   \<and> fst (testCharactersHaveNames (respond_with 200 (page_of [JNull]))) =
       Inl (TypeError (ReadOfNullish (str ''name'')))
   \<and> fst (testCharactersHaveNames (respond_with 200 (page_of [JNull]))) \<noteq>
       Inl (Error (str ''Some characters are missing a 'name' property.''))"
  by (simp add: testCharactersHaveNames_shape check_shape_result respond_with_simps with_body_def
        verdict_names_def page_of_def destructure_simps get_def has_truthy_name_def)

text \<open>
  Claim C5, as amended. The Specific Record check fetches the base URL followed by the
  literal \<^verbatim>\<open>?name=Mickey Mouse\<close>. When \<^verbatim>\<open>data\<close> is an array, the first element that is
  null (or undefined) or is named exactly Mickey Mouse decides: if it is named Mickey
  Mouse the check returns normally; if it is null the check throws the \<^verbatim>\<open>TypeError\<close> of
  reading \<^verbatim>\<open>name\<close> from it; and if there is no such element the check throws the not-found
  error. So the check returns normally if and only if an element named exactly Mickey
  Mouse comes before any null element; for an array without null elements that is, if
  and only if some element is named exactly Mickey Mouse.
\<close>

theorem testSpecificCharacterExists_first_match:
  assumes "network w 0 (API_URL @ str ''?name=Mickey Mouse'') = Inr response"
    and "json response = Inr body"
    and "lookup body (str ''data'') = JArray xs"
  shows "requests (snd (testSpecificCharacterExists w)) =
           requests w @ [str ''https://api.disneyapi.dev/characters?name=Mickey Mouse'']
       \<and> fst (testSpecificCharacterExists w) =
           (case find (\<lambda>x. nullish x \<or> is_mickey x) xs of
              None \<Rightarrow> Inl (Error mickey_not_found)
            | Some x \<Rightarrow>
                if nullish x then Inl (TypeError (ReadOfNullish (str ''name''))) else Inr ())
       \<and> (fst (testSpecificCharacterExists w) = Inr () \<longleftrightarrow>
            (\<exists>x. find (\<lambda>x. nullish x \<or> is_mickey x) xs = Some x \<and> is_mickey x))
       \<and> (\<forall>x. find (\<lambda>x. nullish x \<or> is_mickey x) xs = Some x \<and> nullish x \<longrightarrow>
            fst (testSpecificCharacterExists w) = Inl (TypeError (ReadOfNullish (str ''name''))))
       \<and> ((\<forall>x\<in>set xs. \<not> nullish x) \<longrightarrow>
            (fst (testSpecificCharacterExists w) = Inr () \<longleftrightarrow> (\<exists>x\<in>set xs. is_mickey x))
          \<and> ((\<forall>x\<in>set xs. \<not> is_mickey x) \<longrightarrow>
               fst (testSpecificCharacterExists w) = Inl (Error mickey_not_found)))"
proof -
  have r: "fst (testSpecificCharacterExists w) = snd (verdict_mickey body)"
    using assms by (simp add: testSpecificCharacterExists_shape body_result)
  have nn: "\<not> nullish body"
    using assms(3) by (rule lookup_not_nullish)
  have v: "snd (verdict_mickey body) =
             (case find (\<lambda>x. nullish x \<or> is_mickey x) xs of
                None \<Rightarrow> Inl (Error mickey_not_found)
              | Some x \<Rightarrow>
                  if nullish x then Inl (TypeError (ReadOfNullish (str ''name''))) else Inr ())"
    using nn assms(3)
    by (simp add: verdict_mickey_def destructure_simps array_some_mickey split: option.splits)
  have u: "requests (snd (testSpecificCharacterExists w)) =
           requests w @ [str ''https://api.disneyapi.dev/characters?name=Mickey Mouse'']"
    by (simp add: testSpecificCharacterExists_shape check_shape_requests API_URL_def
          str_append [symmetric])
  have a: "fst (testSpecificCharacterExists w) = Inr () \<longleftrightarrow>
            (\<exists>x. find (\<lambda>x. nullish x \<or> is_mickey x) xs = Some x \<and> is_mickey x)"
    by (auto simp add: r v is_mickey_def split: option.splits dest: find_Some_holds)
  have n: "fst (testSpecificCharacterExists w) = Inl (TypeError (ReadOfNullish (str ''name'')))"
    if "find (\<lambda>x. nullish x \<or> is_mickey x) xs = Some x" "nullish x" for x
    using that by (simp add: r v)
  have b: "(\<exists>x. find (\<lambda>x. nullish x \<or> is_mickey x) xs = Some x \<and> is_mickey x) \<longleftrightarrow>
             (\<exists>x\<in>set xs. is_mickey x)" if "\<forall>x\<in>set xs. \<not> nullish x"
  proof
    assume "\<exists>x. find (\<lambda>x. nullish x \<or> is_mickey x) xs = Some x \<and> is_mickey x"
    then show "\<exists>x\<in>set xs. is_mickey x"
      by (auto dest: find_Some_holds)
  next
    assume "\<exists>x\<in>set xs. is_mickey x"
    then have "find (\<lambda>x. nullish x \<or> is_mickey x) xs \<noteq> None"
      by (auto simp: find_None_iff)
    then obtain x where x: "find (\<lambda>x. nullish x \<or> is_mickey x) xs = Some x"
      by auto
    then have "x \<in> set xs" "nullish x \<or> is_mickey x"
      by (auto dest: find_Some_holds)
    with that x show "\<exists>x. find (\<lambda>x. nullish x \<or> is_mickey x) xs = Some x \<and> is_mickey x"
      by auto
  qed
  have c: "fst (testSpecificCharacterExists w) = Inl (Error mickey_not_found)"
    if "\<forall>x\<in>set xs. \<not> nullish x" "\<forall>x\<in>set xs. \<not> is_mickey x"
  proof -
    from that have "find (\<lambda>x. nullish x \<or> is_mickey x) xs = None"
      by (auto simp: find_None_iff)
    then show ?thesis by (simp add: r v)
  qed
  have rv: "fst (testSpecificCharacterExists w) =
           (case find (\<lambda>x. nullish x \<or> is_mickey x) xs of
              None \<Rightarrow> Inl (Error mickey_not_found)
            | Some x \<Rightarrow>
                if nullish x then Inl (TypeError (ReadOfNullish (str ''name''))) else Inr ())"
    by (simp add: r v)
  from u rv a n b c show ?thesis
    by blast
qed

theorem testSpecificCharacterExists_first_match_witness:
  "requests (snd (testSpecificCharacterExists
       (respond_with 200 (page_of [named ''Donald Duck'', named ''Mickey Mouse'', JNull]))))
     = [str ''https://api.disneyapi.dev/characters?name=Mickey Mouse'']
   \<and> find (\<lambda>x. nullish x \<or> is_mickey x) [named ''Donald Duck'', named ''Mickey Mouse'', JNull]
       = Some (named ''Mickey Mouse'')
   \<and> fst (testSpecificCharacterExists
       (respond_with 200 (page_of [named ''Donald Duck'', named ''Mickey Mouse'', JNull]))) = Inr ()
   \<and> find (\<lambda>x. nullish x \<or> is_mickey x) [named ''Donald Duck'', JNull, named ''Mickey Mouse'']
       = Some JNull
   \<and> fst (testSpecificCharacterExists
       (respond_with 200 (page_of [named ''Donald Duck'', JNull, named ''Mickey Mouse''])))
     = Inl (TypeError (ReadOfNullish (str ''name'')))
   \<and> find (\<lambda>x. nullish x \<or> is_mickey x) [named ''Donald Duck''] = None
   \<and> fst (testSpecificCharacterExists (respond_with 200 (page_of [named ''Donald Duck''])))
     = Inl (Error mickey_not_found)"
proof -
  have f1: "find (\<lambda>x. nullish x \<or> is_mickey x) [named ''Donald Duck'', named ''Mickey Mouse'', JNull]
       = Some (named ''Mickey Mouse'')"
    and f2: "find (\<lambda>x. nullish x \<or> is_mickey x) [named ''Donald Duck'', JNull, named ''Mickey Mouse'']
       = Some JNull"
    and f3: "find (\<lambda>x. nullish x \<or> is_mickey x) [named ''Donald Duck''] = None"
    by (simp_all add: is_mickey_def named_def)
  have nn: "\<not> nullish (named ''Mickey Mouse'')"
    by (simp add: named_def)
  have a: "requests (snd (testSpecificCharacterExists
       (respond_with 200 (page_of [named ''Donald Duck'', named ''Mickey Mouse'', JNull]))))
     = [str ''https://api.disneyapi.dev/characters?name=Mickey Mouse'']
   \<and> fst (testSpecificCharacterExists
       (respond_with 200 (page_of [named ''Donald Duck'', named ''Mickey Mouse'', JNull]))) = Inr ()"
    using testSpecificCharacterExists_first_match
      [of "respond_with 200 (page_of [named ''Donald Duck'', named ''Mickey Mouse'', JNull])"
        "\<lparr>status = 200, json = Inr (page_of [named ''Donald Duck'', named ''Mickey Mouse'', JNull])\<rparr>"
        "page_of [named ''Donald Duck'', named ''Mickey Mouse'', JNull]"
        "[named ''Donald Duck'', named ''Mickey Mouse'', JNull]"]
    by (simp add: respond_with_simps page_of_def f1 nn del: find.simps)
  have b: "fst (testSpecificCharacterExists
       (respond_with 200 (page_of [named ''Donald Duck'', JNull, named ''Mickey Mouse''])))
     = Inl (TypeError (ReadOfNullish (str ''name'')))"
    using testSpecificCharacterExists_first_match
      [of "respond_with 200 (page_of [named ''Donald Duck'', JNull, named ''Mickey Mouse''])"
        "\<lparr>status = 200, json = Inr (page_of [named ''Donald Duck'', JNull, named ''Mickey Mouse''])\<rparr>"
        "page_of [named ''Donald Duck'', JNull, named ''Mickey Mouse'']"
        "[named ''Donald Duck'', JNull, named ''Mickey Mouse'']"]
    by (simp add: respond_with_simps page_of_def f2 del: find.simps)
  have c: "fst (testSpecificCharacterExists (respond_with 200 (page_of [named ''Donald Duck''])))
     = Inl (Error mickey_not_found)"
    using testSpecificCharacterExists_first_match
      [of "respond_with 200 (page_of [named ''Donald Duck''])"
        "\<lparr>status = 200, json = Inr (page_of [named ''Donald Duck''])\<rparr>"
        "page_of [named ''Donald Duck'']" "[named ''Donald Duck'']"]
    by (simp add: respond_with_simps page_of_def f3 del: find.simps)
  from f1 f2 f3 a b c show ?thesis
    by blast
qed

text \<open>
  Against claim C5 as written: in the array of null followed by a character named Mickey
  Mouse an element has that name, yet the check fails, with a \<^verbatim>\<open>TypeError\<close>.
\<close>

theorem null_before_mickey_fails:
  "is_mickey (named ''Mickey Mouse'')
   \<and> named ''Mickey Mouse'' \<in> set [JNull, named ''Mickey Mouse'']
   \<and> fst (testSpecificCharacterExists (respond_with 200 (page_of [JNull, named ''Mickey Mouse''])))
       = Inl (TypeError (ReadOfNullish (str ''name'')))"
  by (simp add: testSpecificCharacterExists_shape check_shape_result respond_with_simps
        with_body_def verdict_mickey_def page_of_def destructure_simps get_def is_mickey_def
        named_def)

text \<open>
  Claim C6. When the body of the response has an array as its \<^verbatim>\<open>data\<close>, the Pagination
  Size check returns normally if and only if the array has 50 elements; for any other
  length it throws an error whose message is \<^verbatim>\<open>Expected 50 items per page, but got\<close>
  followed by the length in decimal.
\<close>

theorem testPagination_iff_50:
  assumes "network w 0 API_URL = Inr response"
    and "json response = Inr body"
    and "lookup body (str ''data'') = JArray xs"
  shows "(fst (testPagination w) = Inr () \<longleftrightarrow> length xs = 50)
       \<and> (length xs \<noteq> 50 \<longrightarrow>
            fst (testPagination w) =
              Inl (Error (str (''Expected 50 items per page, but got '' @ show_nat (length xs)))))"
proof -
  have nn: "\<not> nullish body"
    using assms(3) by (cases body) simp_all
  have r: "fst (testPagination w) = snd (verdict_page body)"
    using assms(1,2) by (simp add: testPagination_shape check_shape_result with_body_def)
  show ?thesis
    using nn assms(3)
    by (simp add: r verdict_page_cases count_error_def show_int_def str_append [symmetric])
qed

theorem testPagination_iff_50_witness:
  "lookup (page_of (replicate 50 JNull)) (str ''data'') = JArray (replicate 50 JNull)
   \<and> fst (testPagination (respond_with 200 (page_of (replicate 50 JNull)))) = Inr ()
   \<and> lookup (page_of (replicate 10 JNull)) (str ''data'') = JArray (replicate 10 JNull)
   \<and> fst (testPagination (respond_with 200 (page_of (replicate 10 JNull)))) =
       Inl (Error (str ''Expected 50 items per page, but got 10''))"
proof -
  have n: "show_nat 10 = ''10''"
    by code_simp
  have a: "fst (testPagination (respond_with 200 (page_of (replicate 50 JNull)))) = Inr ()"
    using testPagination_iff_50 [of "respond_with 200 (page_of (replicate 50 JNull))"
        "\<lparr>status = 200, json = Inr (page_of (replicate 50 JNull))\<rparr>"
        "page_of (replicate 50 JNull)" "replicate 50 JNull"]
    by (simp add: respond_with_simps page_of_def)
  have b: "fst (testPagination (respond_with 200 (page_of (replicate 10 JNull)))) =
       Inl (Error (str ''Expected 50 items per page, but got 10''))"
    using testPagination_iff_50 [of "respond_with 200 (page_of (replicate 10 JNull))"
        "\<lparr>status = 200, json = Inr (page_of (replicate 10 JNull))\<rparr>"
        "page_of (replicate 10 JNull)" "replicate 10 JNull"] n
    by (simp add: respond_with_simps page_of_def)
  from a b show ?thesis
    by (simp add: page_of_def)
qed

text \<open>
  Claim C10, as amended. When \<^verbatim>\<open>data\<close> is missing from the body or is not an array, the
  Name Presence and the Specific Record checks fail with a \<^verbatim>\<open>TypeError\<close>, which is logged
  on the check's failure line and thrown again. The Pagination check does the same when
  \<^verbatim>\<open>data\<close> is missing or null. Any other \<^verbatim>\<open>data\<close> it judges by its \<^verbatim>\<open>length\<close> property:
  the check passes if that is the number 50. Otherwise it fails, and the error is logged
  on the failure line and thrown again: if the value converts to a string, the error is
  the message with the expected count and that string; if it does not (an object with a
  property of its own named \<^verbatim>\<open>toString\<close>, alone or within an array), the error is the
  \<^verbatim>\<open>TypeError\<close> of the conversion. The text of the message is stated for the values
  within the bounds of the model.
\<close>

theorem checks_without_data_array:
  assumes "network w 0 API_URL = Inr response"
    and "network w 0 (API_URL @ str ''?name=Mickey Mouse'') = Inr response"
    and "json response = Inr body"
    and "\<not> isArray (lookup body (str ''data''))"
  shows "(\<exists>f. fst (testCharactersHaveNames w) = Inl (TypeError f)
            \<and> console (snd (testCharactersHaveNames w)) =
                console w @ [ConsoleError (str ''Test 3: FAILED'') (TypeError f)])
       \<and> (\<exists>f. fst (testSpecificCharacterExists w) = Inl (TypeError f)
            \<and> console (snd (testSpecificCharacterExists w)) =
                console w @ [ConsoleError (str ''Test 4: FAILED.'') (TypeError f)])
       \<and> (nullish (lookup body (str ''data'')) \<longrightarrow>
            (\<exists>f. fst (testPagination w) = Inl (TypeError f)
               \<and> console (snd (testPagination w)) =
                   console w @ [ConsoleError (str ''Test 5: FAILED.'') (TypeError f)]))
       \<and> (\<not> nullish (lookup body (str ''data'')) \<longrightarrow>
            (fst (testPagination w) = Inr () \<longleftrightarrow>
               lookup (lookup body (str ''data'')) (str ''length'') = JNum 50)
          \<and> (lookup (lookup body (str ''data'')) (str ''length'') \<noteq> JNum 50 \<longrightarrow>
               (\<exists>e. fst (testPagination w) = Inl e
                  \<and> console (snd (testPagination w)) =
                      console w @ [ConsoleError (str ''Test 5: FAILED.'') e])
             \<and> (isl (to_string (lookup (lookup body (str ''data'')) (str ''length''))) \<longrightarrow>
                  fst (testPagination w) = Inl (TypeError NotPrimitive))
             \<and> (\<forall>text. modelled (lookup (lookup body (str ''data'')) (str ''length''))
                    \<and> to_string (lookup (lookup body (str ''data'')) (str ''length'')) = Inr text
                  \<longrightarrow> fst (testPagination w) =
                        Inl (Error (str ''Expected 50 items per page, but got '' @ text)))))"
proof -
  obtain f3 where f3: "verdict_names body = ([], Inl (TypeError f3))"
    using assms(4) verdict_names_not_array by blast
  obtain f4 where f4: "verdict_mickey body = ([], Inl (TypeError f4))"
    using assms(4) verdict_mickey_not_array by blast
  have c3: "fst (testCharactersHaveNames w) = Inl (TypeError f3)
            \<and> console (snd (testCharactersHaveNames w)) =
                console w @ [ConsoleError (str ''Test 3: FAILED'') (TypeError f3)]"
    using assms(1,3) by (simp add: testCharactersHaveNames_shape body_result f3)
  have c4: "fst (testSpecificCharacterExists w) = Inl (TypeError f4)
            \<and> console (snd (testSpecificCharacterExists w)) =
                console w @ [ConsoleError (str ''Test 4: FAILED.'') (TypeError f4)]"
    using assms(2,3) by (simp add: testSpecificCharacterExists_shape body_result f4)
  have r5: "fst (testPagination w) = snd (verdict_page body)"
    "console (snd (testPagination w)) =
       console w @ map (\<lambda>s. ConsoleLog (str s)) (fst (verdict_page body))
         @ (case snd (verdict_page body) of
              Inl e \<Rightarrow> [ConsoleError (str ''Test 5: FAILED.'') e] | Inr u \<Rightarrow> [])"
    using assms(1,3) by (simp_all add: testPagination_shape body_result)
  have c5: "nullish (lookup body (str ''data'')) \<longrightarrow>
            (\<exists>f. fst (testPagination w) = Inl (TypeError f)
               \<and> console (snd (testPagination w)) =
                   console w @ [ConsoleError (str ''Test 5: FAILED.'') (TypeError f)])"
    by (simp add: r5 verdict_page_cases)
  have c6: "\<not> nullish (lookup body (str ''data'')) \<longrightarrow>
            (fst (testPagination w) = Inr () \<longleftrightarrow>
               lookup (lookup body (str ''data'')) (str ''length'') = JNum 50)
          \<and> (lookup (lookup body (str ''data'')) (str ''length'') \<noteq> JNum 50 \<longrightarrow>
               (\<exists>e. fst (testPagination w) = Inl e
                  \<and> console (snd (testPagination w)) =
                      console w @ [ConsoleError (str ''Test 5: FAILED.'') e])
             \<and> (isl (to_string (lookup (lookup body (str ''data'')) (str ''length''))) \<longrightarrow>
                  fst (testPagination w) = Inl (TypeError NotPrimitive))
             \<and> (\<forall>text. modelled (lookup (lookup body (str ''data'')) (str ''length''))
                    \<and> to_string (lookup (lookup body (str ''data'')) (str ''length'')) = Inr text
                  \<longrightarrow> fst (testPagination w) =
                        Inl (Error (str ''Expected 50 items per page, but got '' @ text))))"
    using nullish_lookup [of body "str ''data''"]
    by (auto simp add: r5 verdict_page_cases count_error_cases)
  from c3 c4 c5 c6 show ?thesis
    by blast
qed

theorem checks_without_data_array_witness:
  "\<not> isArray (lookup (JObject []) (str ''data''))
   \<and> nullish (lookup (JObject []) (str ''data''))
   \<and> (\<exists>f. fst (testCharactersHaveNames (respond_with 200 (JObject []))) = Inl (TypeError f)
          \<and> console (snd (testCharactersHaveNames (respond_with 200 (JObject [])))) =
              [ConsoleError (str ''Test 3: FAILED'') (TypeError f)])
   \<and> (\<exists>f. fst (testSpecificCharacterExists (respond_with 200 (JObject []))) = Inl (TypeError f)
          \<and> console (snd (testSpecificCharacterExists (respond_with 200 (JObject [])))) =
              [ConsoleError (str ''Test 4: FAILED.'') (TypeError f)])
   \<and> (\<exists>f. fst (testPagination (respond_with 200 (JObject []))) = Inl (TypeError f)
          \<and> console (snd (testPagination (respond_with 200 (JObject [])))) =
              [ConsoleError (str ''Test 5: FAILED.'') (TypeError f)])
   \<and> fst (testPagination (respond_with 200
        (JObject [(str ''data'', JObject [(str ''length'', JNum 50)])]))) = Inr ()
   \<and> fst (testPagination (respond_with 200 (JObject [(str ''data'', JBool True)])))
       = Inl (Error (str ''Expected 50 items per page, but got undefined''))
   \<and> fst (testPagination (respond_with 200
        (JObject [(str ''data'',
           JObject [(str ''length'', JObject [(str ''toString'', JNum 1)])])])))
       = Inl (TypeError NotPrimitive)"
proof -
  have a: "\<not> isArray (lookup (JObject []) (str ''data''))"
    "nullish (lookup (JObject []) (str ''data''))"
    by simp_all
  have w1: "(\<exists>f. fst (testCharactersHaveNames (respond_with 200 (JObject []))) = Inl (TypeError f)
          \<and> console (snd (testCharactersHaveNames (respond_with 200 (JObject [])))) =
              [ConsoleError (str ''Test 3: FAILED'') (TypeError f)])
   \<and> (\<exists>f. fst (testSpecificCharacterExists (respond_with 200 (JObject []))) = Inl (TypeError f)
          \<and> console (snd (testSpecificCharacterExists (respond_with 200 (JObject [])))) =
              [ConsoleError (str ''Test 4: FAILED.'') (TypeError f)])
   \<and> (\<exists>f. fst (testPagination (respond_with 200 (JObject []))) = Inl (TypeError f)
          \<and> console (snd (testPagination (respond_with 200 (JObject [])))) =
              [ConsoleError (str ''Test 5: FAILED.'') (TypeError f)])"
    using checks_without_data_array [of "respond_with 200 (JObject [])"
      "\<lparr>status = 200, json = Inr (JObject [])\<rparr>" "JObject []"]
    by (simp add: respond_with_simps)
  have w2: "fst (testPagination (respond_with 200
        (JObject [(str ''data'', JObject [(str ''length'', JNum 50)])]))) = Inr ()"
    using checks_without_data_array [of "respond_with 200
          (JObject [(str ''data'', JObject [(str ''length'', JNum 50)])])"
      "\<lparr>status = 200, json = Inr (JObject [(str ''data'', JObject [(str ''length'', JNum 50)])])\<rparr>"
      "JObject [(str ''data'', JObject [(str ''length'', JNum 50)])]"]
    by (simp add: respond_with_simps)
  have w3: "fst (testPagination (respond_with 200 (JObject [(str ''data'', JBool True)])))
       = Inl (Error (str ''Expected 50 items per page, but got undefined''))"
    using checks_without_data_array [of "respond_with 200 (JObject [(str ''data'', JBool True)])"
      "\<lparr>status = 200, json = Inr (JObject [(str ''data'', JBool True)])\<rparr>"
      "JObject [(str ''data'', JBool True)]"]
    by (simp add: respond_with_simps str_append [symmetric])
  have w4: "fst (testPagination (respond_with 200
        (JObject [(str ''data'',
           JObject [(str ''length'', JObject [(str ''toString'', JNum 1)])])])))
       = Inl (TypeError NotPrimitive)"
    using checks_without_data_array [of "respond_with 200
        (JObject [(str ''data'',
           JObject [(str ''length'', JObject [(str ''toString'', JNum 1)])])])"
      "\<lparr>status = 200, json = Inr (JObject [(str ''data'',
           JObject [(str ''length'', JObject [(str ''toString'', JNum 1)])])])\<rparr>"
      "JObject [(str ''data'',
           JObject [(str ''length'', JObject [(str ''toString'', JNum 1)])])]"]
    by (simp add: respond_with_simps)
  from a w1 w2 w3 w4 show ?thesis
    by blast
qed

text \<open>
  Against claim C10 as written: when \<^verbatim>\<open>data\<close> is the string \<^verbatim>\<open>abc\<close>, which is not an
  array, the Pagination check throws no \<^verbatim>\<open>TypeError\<close> but its own message, with the
  length of the string as the actual count.
\<close>

theorem pagination_judges_string_by_length:
  "\<not> isArray (lookup (JObject [(str ''data'', JString (str ''abc''))]) (str ''data''))
   \<and> fst (testPagination (respond_with 200 (JObject [(str ''data'', JString (str ''abc''))]))) =
       Inl (Error (str ''Expected 50 items per page, but got 3''))"
proof -
  have n: "show_int 3 = ''3''"
    by code_simp
  show ?thesis
    by (simp add: testPagination_shape check_shape_result respond_with_simps with_body_def
          verdict_page_cases count_error_def n str_append [symmetric])
qed

end
